theory Spec2Isabelle
  imports Main "HOL-Library.AList"
begin

section \<open>The SOLR backend of the datastore search extension\<close>

text \<open>
  A shallow embedding of \<^verbatim>\<open>ckanext/datastore_search/backend/solr.py\<close>, the class
  \<^verbatim>\<open>DatastoreSolrBackend\<close>. Every remote call of the source (pysolr and the
  API v2 requests) is a \<open>request\<close>; the requests sent so far form the log, which is the
  state threaded through every operation. The SOLR server is a parameter
  \<open>remote\<close> that answers a request from the log before it, so that a theorem proved
  for every \<open>remote\<close> holds whatever the server does. A raised exception is the
  \<open>Inl\<close> of a sum.

  The body of a response is taken to be JSON (\<^verbatim>\<open>json.loads\<close> does not fail on it), the
  translation \<^verbatim>\<open>_\<close> of a message is the message, and the \<^verbatim>\<open>context\<close> argument, which
  the source only passes on to \<^verbatim>\<open>datastore_search\<close>, is left out. The stub \<^verbatim>\<open>search\<close>
  only logs its argument and is not modelled.
\<close>

subsection \<open>JSON values, Python values, exceptions\<close>

text \<open>
  The attribute values of a schema field, of a record and of a filter: strings, booleans
  and null. A JSON object (a Python dict with string keys) is an association list in
  insertion order; \<open>AList.update\<close> is the dict assignment (the value of a key that is
  present is replaced in place, a new key is appended).
\<close>

datatype jval = JStr string | JBool bool | JNull

type_synonym jobj = "(string \<times> jval) list"

text \<open>\<^verbatim>\<open>'%s' % v\<close>\<close>

fun py_str :: "jval \<Rightarrow> string" where
  "py_str (JStr s) = s"
| "py_str (JBool b) = (if b then ''True'' else ''False'')"
| "py_str JNull = ''None''"

text \<open>What a method declared \<^verbatim>\<open>-> Any\<close> can return, as far as the claims need it.\<close>

datatype py_value = PyNone | PyBool bool

datatype exn =
    DatastoreSearchException string
  | KeyError string
  | UnboundLocalError string
  | SolrError string
  | RequestException string

subsection \<open>Configuration and input\<close>

text \<open>
  \<^verbatim>\<open>self.prefix\<close>, \<^verbatim>\<open>self.url\<close> and \<^verbatim>\<open>config.get('debug')\<close>. The timeout is
  passed to every call and decides nothing here.
\<close>

record config =
  prefix :: string
  url :: string
  debug :: bool

record ds_field =
  id_field :: string
  type_field :: string

text \<open>
  The \<^verbatim>\<open>data_dict\<close>: each key may be absent (\<open>None\<close>); \<open>fields_key\<close> is
  its key \<^verbatim>\<open>fields\<close>. The values of \<^verbatim>\<open>filters\<close> are strings.
\<close>

record data_dict =
  resource_id :: "string option"
  fields_key :: "ds_field list option"
  records :: "jobj list option"
  filters :: "(string \<times> string) list option"

definition MAX_ERR_LEN :: nat where
  "MAX_ERR_LEN = 1000"

definition default_solr_fields :: "string list" where
  "default_solr_fields = [''_id'', ''_version_'', ''indexed_ts'']"

definition field_type_map_items :: "(string \<times> string) list" where
  "field_type_map_items =
    [(''smallint'', ''int''),
     (''integer'', ''int''),
     (''bigint'', ''int''),
     (''decimal'', ''float''),
     (''numeric'', ''float''),
     (''real'', ''double''),
     (''double precision'', ''double''),
     (''smallserial'', ''int''),
     (''serial'', ''int''),
     (''bigserial'', ''int''),
     (''money'', ''float''),
     (''character varying'', ''text''),
     (''varchar'', ''text''),
     (''character'', ''text''),
     (''char'', ''text''),
     (''bpchar'', ''text''),
     (''text'', ''text''),
     (''bytea'', ''binary''),
     (''timestamp'', ''date''),
     (''date'', ''date''),
     (''time'', ''date''),
     (''interval'', ''date''),
     (''boolean'', ''boolean'')]"

text \<open>\<^verbatim>\<open>self.field_type_map[t]\<close> raises \<^verbatim>\<open>KeyError\<close> where this is \<open>None\<close>.\<close>

definition field_type_map :: "string \<Rightarrow> string option" where
  "field_type_map = map_of field_type_map_items"

text \<open>\<^verbatim>\<open>f'{self.prefix}{rid}'\<close>, where \<^verbatim>\<open>rid\<close> is \<^verbatim>\<open>data_dict.get('resource_id')\<close>.\<close>

definition core_name_of :: "config \<Rightarrow> string option \<Rightarrow> string" where
  "core_name_of cfg rid = prefix cfg @ (case rid of None \<Rightarrow> ''None'' | Some s \<Rightarrow> s)"

subsection \<open>Requests, responses, the log\<close>

text \<open>A \<^verbatim>\<open>pysolr.Solr\<close> object, known by its connection string.\<close>

datatype conn = Solr string

text \<open>
  \<^item> \<open>Ping c\<close>: \<^verbatim>\<open>conn.ping()\<close>;
  \<^item> \<open>ApiPost u body\<close>, \<open>ApiGet u\<close>: \<^verbatim>\<open>requests.post\<close> and \<^verbatim>\<open>requests.get\<close> on the
    API v2 URL \<open>u\<close>; the only body the source sends is
    \<^verbatim>\<open>{'create': [{'name': n, 'configSet': s}]}\<close>, kept as \<open>(n, s)\<close>;
  \<^item> \<open>SchemaFields c\<close>: \<^verbatim>\<open>conn._send_request(method='GET', path='schema/fields')\<close>;
  \<^item> \<open>SchemaPost c cmd f\<close>: \<^verbatim>\<open>conn._send_request(method='POST', path='schema',
    body=json.dumps({cmd: f}))\<close>;
  \<^item> \<open>Add c r commit\<close>: \<^verbatim>\<open>conn.add(docs=[r], commit=commit)\<close>;
  \<^item> \<open>Delete c q commit\<close>: \<^verbatim>\<open>conn.delete(q=q, commit=commit)\<close>;
  \<^item> \<open>Commit c w\<close>: \<^verbatim>\<open>conn.commit(waitSearcher=w)\<close>.
\<close>

datatype request =
    Ping conn
  | ApiPost string "(string \<times> string) option"
  | ApiGet string
  | SchemaFields conn
  | SchemaPost conn string jobj
  | Add conn jobj bool
  | Delete conn string bool
  | Commit conn bool

text \<open>
  The keys of a JSON response that the source reads: \<^verbatim>\<open>status\<close>, \<^verbatim>\<open>error\<close> (with
  its optional \<^verbatim>\<open>msg\<close>) and \<^verbatim>\<open>fields\<close>.
\<close>

record json_resp =
  resp_status :: "string option"
  resp_error :: "string option option"
  resp_fields :: "jobj list option"

text \<open>
  \<open>Failure m\<close>: the call raised, with \<open>m\<close> as \<^verbatim>\<open>e.args[0]\<close>
  (\<^verbatim>\<open>pysolr.SolrError\<close> for a pysolr call, an exception of \<^verbatim>\<open>requests\<close> for an API
  call).
\<close>

datatype response = Failure string | Body json_resp

type_synonym remote = "request list \<Rightarrow> request \<Rightarrow> response"

definition send :: "remote \<Rightarrow> request list \<Rightarrow> request \<Rightarrow> response \<times> request list" where
  "send remote log req = (remote log req, log @ [req])"

text \<open>The requests a call has sent: the log it returns, without the log it started from.\<close>

definition issued :: "request list \<Rightarrow> 'a \<times> request list \<Rightarrow> request list" where
  "issued log r = drop (length log) (snd r)"

fun is_schema_mutation :: "request \<Rightarrow> bool" where
  "is_schema_mutation (SchemaPost c cmd f) =
     (cmd = ''add-field'' \<or> cmd = ''replace-field'' \<or> cmd = ''delete-field'')"
| "is_schema_mutation _ = False"

fun is_commit :: "request \<Rightarrow> bool" where
  "is_commit (Commit c w) = True"
| "is_commit (Add c r commit) = commit"
| "is_commit (Delete c q commit) = commit"
| "is_commit _ = False"

text \<open>
  \<^verbatim>\<open>errmsg if not config.get('debug') else m[:MAX_ERR_LEN]\<close>, where \<^verbatim>\<open>m\<close> is
  \<^verbatim>\<open>e.args[0]\<close> or \<^verbatim>\<open>resp['error'].get('msg', errmsg)\<close>.
\<close>

definition error_text :: "config \<Rightarrow> string \<Rightarrow> string option \<Rightarrow> string" where
  "error_text cfg errmsg msg =
     (if \<not> debug cfg then errmsg
      else take MAX_ERR_LEN (case msg of None \<Rightarrow> errmsg | Some m \<Rightarrow> m))"

subsection \<open>\<^verbatim>\<open>_make_connection\<close> and \<^verbatim>\<open>_send_api_request\<close>\<close>

definition make_connection ::
  "config \<Rightarrow> remote \<Rightarrow> request list \<Rightarrow> string \<Rightarrow> conn option \<times> request list" where
  "make_connection cfg remote log core_name =
     (let conn_string = url cfg @ ''/solr/'' @ core_name;
          c = Solr conn_string;
          (r, log') = send remote log (Ping c)
      in case r of
           Failure m \<Rightarrow> (None, log')
         | Body resp \<Rightarrow>
             if resp_status resp = Some ''OK'' then (Some c, log') else (None, log'))"

definition send_api_request ::
  "config \<Rightarrow> remote \<Rightarrow> request list \<Rightarrow> string \<Rightarrow> string \<Rightarrow> (string \<times> string) option
     \<Rightarrow> (exn + json_resp) \<times> request list" where
  "send_api_request cfg remote log method endpoint body =
     (let conn_string = url cfg @ ''/api/'' @ endpoint;
          (r, log') =
            (if method = ''POST'' then send remote log (ApiPost conn_string body)
             else send remote log (ApiGet conn_string))
      in case r of
           Failure m \<Rightarrow> (Inl (RequestException m), log')
         | Body resp \<Rightarrow> (Inr resp, log'))"

text \<open>
  \<^verbatim>\<open>conn = self._make_connection(core_name=core_name) if not connection else connection\<close>
\<close>

definition connection_or_make ::
  "config \<Rightarrow> remote \<Rightarrow> request list \<Rightarrow> string \<Rightarrow> conn option \<Rightarrow> conn option \<times> request list" where
  "connection_or_make cfg remote log core_name connection =
     (case connection of
        None \<Rightarrow> make_connection cfg remote log core_name
      | Some c \<Rightarrow> (Some c, log))"

subsection \<open>\<^verbatim>\<open>create\<close>\<close>

text \<open>
  Lines 116 to 131: the connection, and the creation of the core where there is none.
  The local variable \<^verbatim>\<open>errmsg\<close> is assigned only inside \<^verbatim>\<open>if not conn:\<close>; the
  result carries it as an option, \<open>None\<close> where it is still unbound.
\<close>

definition create_connect ::
  "config \<Rightarrow> remote \<Rightarrow> request list \<Rightarrow> string \<Rightarrow> conn option
     \<Rightarrow> (exn + conn \<times> string option) \<times> request list" where
  "create_connect cfg remote log core_name connection =
     (case connection_or_make cfg remote log core_name connection of
        (Some c, log1) \<Rightarrow> (Inr (c, None), log1)
      | (None, log1) \<Rightarrow>
          (let errmsg = ''Could not create SOLR core '' @ core_name;
               req_body = (core_name, ''datastore_resource'')
           in case send_api_request cfg remote log1 ''POST'' ''cores'' (Some req_body) of
                (Inl e, log2) \<Rightarrow> (Inl e, log2)
              | (Inr resp, log2) \<Rightarrow>
                  (case resp_error resp of
                     Some msg \<Rightarrow> (Inl (DatastoreSearchException (error_text cfg errmsg msg)), log2)
                   | None \<Rightarrow>
                       (case make_connection cfg remote log2 core_name of
                          (None, log3) \<Rightarrow>
                            (Inl (DatastoreSearchException
                                    (''Could not connect to SOLR core '' @ core_name)), log3)
                        | (Some c, log3) \<Rightarrow> (Inr (c, Some errmsg), log3)))))"

text \<open>
  Lines 133 to 138: the read of the live schema. In the handler, \<^verbatim>\<open>errmsg\<close> is read
  when debug is off, and raises \<^verbatim>\<open>UnboundLocalError\<close> where it was never assigned.
\<close>

definition read_schema_fields ::
  "config \<Rightarrow> remote \<Rightarrow> request list \<Rightarrow> conn \<Rightarrow> string option
     \<Rightarrow> (exn + jobj list) \<times> request list" where
  "read_schema_fields cfg remote log c errmsg =
     (let (r, log') = send remote log (SchemaFields c)
      in case r of
           Failure m \<Rightarrow>
             (if \<not> debug cfg then
                (case errmsg of
                   None \<Rightarrow> (Inl (UnboundLocalError ''errmsg''), log')
                 | Some em \<Rightarrow> (Inl (DatastoreSearchException em), log'))
              else (Inl (DatastoreSearchException (take MAX_ERR_LEN m)), log'))
         | Body resp \<Rightarrow>
             (case resp_fields resp of
                None \<Rightarrow> (Inl (KeyError ''fields''), log')
              | Some solr_fields \<Rightarrow> (Inr solr_fields, log')))"

text \<open>Lines 139 to 143: the live fields keyed by name, without the default fields.\<close>

fun key_solr_fields ::
  "jobj list \<Rightarrow> (jval \<times> jobj) list \<Rightarrow> exn + (jval \<times> jobj) list" where
  "key_solr_fields [] keyed_solr_fields = Inr keyed_solr_fields"
| "key_solr_fields (solr_field # rest) keyed_solr_fields =
     (case map_of solr_field ''name'' of
        None \<Rightarrow> Inl (KeyError ''name'')
      | Some n \<Rightarrow>
          if n \<in> JStr ` set default_solr_fields then key_solr_fields rest keyed_solr_fields
          else key_solr_fields rest (AList.update n solr_field keyed_solr_fields))"

text \<open>
  Lines 149 to 162: the loop over the desired fields, with its three accumulators
  \<^verbatim>\<open>ds_field_ids\<close>, \<^verbatim>\<open>new_fields\<close> and \<^verbatim>\<open>updated_fields\<close>.
\<close>

fun classify_fields ::
  "(jval \<times> jobj) list \<Rightarrow> ds_field list \<Rightarrow> string list \<times> jobj list \<times> jobj list
     \<Rightarrow> exn + string list \<times> jobj list \<times> jobj list" where
  "classify_fields keyed_solr_fields [] acc = Inr acc"
| "classify_fields keyed_solr_fields (ds_field # rest) (ds_field_ids, new_fields, updated_fields) =
     (let ds_field_ids' =
            (if id_field ds_field \<notin> set default_solr_fields
             then ds_field_ids @ [id_field ds_field] else ds_field_ids)
      in case map_of keyed_solr_fields (JStr (id_field ds_field)) of
           None \<Rightarrow>
             (case field_type_map (type_field ds_field) of
                None \<Rightarrow> Inl (KeyError (type_field ds_field))
              | Some t \<Rightarrow>
                  classify_fields keyed_solr_fields rest
                    (ds_field_ids',
                     new_fields @ [[(''name'', JStr (id_field ds_field)),
                                    (''type'', JStr t),
                                    (''stored'', JBool True),
                                    (''indexed'', JBool True)]],
                     updated_fields))
         | Some solr_field \<Rightarrow>
             (case field_type_map (type_field ds_field) of
                None \<Rightarrow> Inl (KeyError (type_field ds_field))
              | Some t \<Rightarrow>
                  (case map_of solr_field ''type'' of
                     None \<Rightarrow> Inl (KeyError ''type'')
                   | Some live_type \<Rightarrow>
                       if JStr t = live_type
                       then classify_fields keyed_solr_fields rest
                              (ds_field_ids', new_fields, updated_fields)
                       else classify_fields keyed_solr_fields rest
                              (ds_field_ids', new_fields,
                               updated_fields @ [AList.update ''type'' (JStr t) solr_field]))))"

text \<open>Lines 163 and 164.\<close>

definition remove_fields_of :: "(jval \<times> jobj) list \<Rightarrow> string list \<Rightarrow> jobj list" where
  "remove_fields_of keyed_solr_fields ds_field_ids =
     map (\<lambda>field_name. [(''name'', field_name)])
       (filter (\<lambda>i. i \<notin> JStr ` set ds_field_ids) (map fst keyed_solr_fields))"

text \<open>
  Lines 166 to 212: the three loops differ in the command and in the message only.
  \<open>post_fields\<close> is the loop; \<open>cmd\<close> is the key of the request body and \<open>mk_errmsg\<close>
  builds \<^verbatim>\<open>errmsg\<close> from \<^verbatim>\<open>f['name']\<close> and the core name.
\<close>

definition add_errmsg :: "string \<Rightarrow> string \<Rightarrow> string" where
  "add_errmsg n core_name = ''Could not add field '' @ n @ '' to SOLR Schema '' @ core_name"

definition update_errmsg :: "string \<Rightarrow> string \<Rightarrow> string" where
  "update_errmsg n core_name = ''Could not update field '' @ n @ '' on SOLR Schema '' @ core_name"

definition delete_errmsg :: "string \<Rightarrow> string \<Rightarrow> string" where
  "delete_errmsg n core_name =
     ''Could not delete field '' @ n @ '' from SOLR Schema '' @ core_name"

text \<open>What one schema request raises on its response, if anything.\<close>

definition post_error :: "config \<Rightarrow> string \<Rightarrow> response \<Rightarrow> exn option" where
  "post_error cfg errmsg r =
     (case r of
        Failure m \<Rightarrow> Some (DatastoreSearchException (error_text cfg errmsg (Some m)))
      | Body resp \<Rightarrow>
          (case resp_error resp of
             Some msg \<Rightarrow> Some (DatastoreSearchException (error_text cfg errmsg msg))
           | None \<Rightarrow> None))"

fun post_fields ::
  "config \<Rightarrow> remote \<Rightarrow> conn \<Rightarrow> string \<Rightarrow> string \<Rightarrow> (string \<Rightarrow> string \<Rightarrow> string)
     \<Rightarrow> request list \<Rightarrow> jobj list \<Rightarrow> (exn + unit) \<times> request list" where
  "post_fields cfg remote c core_name cmd mk_errmsg log [] = (Inr (), log)"
| "post_fields cfg remote c core_name cmd mk_errmsg log (f # rest) =
     (case map_of f ''name'' of
        None \<Rightarrow> (Inl (KeyError ''name''), log)
      | Some n \<Rightarrow>
          (let errmsg = mk_errmsg (py_str n) core_name;
               (r, log') = send remote log (SchemaPost c cmd f)
           in case post_error cfg errmsg r of
                Some e \<Rightarrow> (Inl e, log')
              | None \<Rightarrow> post_fields cfg remote c core_name cmd mk_errmsg log' rest))"

text \<open>Lines 139 to 164, from the live fields and the desired fields to the three lists.\<close>

definition schema_diff ::
  "jobj list \<Rightarrow> ds_field list \<Rightarrow> exn + jobj list \<times> jobj list \<times> jobj list" where
  "schema_diff solr_fields ds_fields =
     (case key_solr_fields solr_fields [] of
        Inl e \<Rightarrow> Inl e
      | Inr keyed_solr_fields \<Rightarrow>
          (case classify_fields keyed_solr_fields ds_fields ([], [], []) of
             Inl e \<Rightarrow> Inl e
           | Inr (ds_field_ids, new_fields, updated_fields) \<Rightarrow>
               Inr (new_fields, updated_fields,
                    remove_fields_of keyed_solr_fields ds_field_ids)))"

text \<open>Lines 166 to 221.\<close>

definition apply_diff ::
  "config \<Rightarrow> remote \<Rightarrow> conn \<Rightarrow> string \<Rightarrow> request list \<Rightarrow> jobj list \<times> jobj list \<times> jobj list
     \<Rightarrow> (exn + py_value) \<times> request list" where
  "apply_diff cfg remote c core_name log d =
     (case d of (new_fields, updated_fields, remove_fields) \<Rightarrow>
        (case post_fields cfg remote c core_name ''add-field'' add_errmsg log new_fields of
           (Inl e, log1) \<Rightarrow> (Inl e, log1)
         | (Inr u, log1) \<Rightarrow>
             (case post_fields cfg remote c core_name ''replace-field'' update_errmsg
                     log1 updated_fields of
                (Inl e, log2) \<Rightarrow> (Inl e, log2)
              | (Inr u, log2) \<Rightarrow>
                  (case post_fields cfg remote c core_name ''delete-field'' delete_errmsg
                          log2 remove_fields of
                     (Inl e, log3) \<Rightarrow> (Inl e, log3)
                   | (Inr u, log3) \<Rightarrow>
                       if new_fields \<noteq> [] \<or> updated_fields \<noteq> [] \<or> remove_fields \<noteq> []
                       then (Inr PyNone, log3)
                       else (Inr PyNone, log3)))))"

text \<open>\<^verbatim>\<open>data_dict.get('fields', [])\<close>\<close>

definition get_fields :: "data_dict \<Rightarrow> ds_field list" where
  "get_fields d = (case fields_key d of None \<Rightarrow> [] | Some fs \<Rightarrow> fs)"

definition create ::
  "config \<Rightarrow> remote \<Rightarrow> request list \<Rightarrow> data_dict \<Rightarrow> conn option
     \<Rightarrow> (exn + py_value) \<times> request list" where
  "create cfg remote log d connection =
     (let rid = resource_id d;
          core_name = core_name_of cfg rid
      in case create_connect cfg remote log core_name connection of
           (Inl e, log1) \<Rightarrow> (Inl e, log1)
         | (Inr (c, errmsg), log1) \<Rightarrow>
             (case read_schema_fields cfg remote log1 c errmsg of
                (Inl e, log2) \<Rightarrow> (Inl e, log2)
              | (Inr solr_fields, log2) \<Rightarrow>
                  (case schema_diff solr_fields (get_fields d) of
                     Inl e \<Rightarrow> (Inl e, log2)
                   | Inr diff \<Rightarrow> apply_diff cfg remote c core_name log2 diff)))"

subsection \<open>\<^verbatim>\<open>upsert\<close>\<close>

text \<open>
  \<^verbatim>\<open>get_action('datastore_search')(context, {'resource_id': rid, 'limit': 0})\<close> is a
  call into CKAN: the parameter \<open>datastore_search\<close> gives the \<^verbatim>\<open>fields\<close> of its result
  for a resource id, or the exception it raises.

  Lines 230 to 245: the connection, and the creation of the core through \<open>create\<close> where
  there is none.
\<close>

definition upsert_connect ::
  "config \<Rightarrow> remote \<Rightarrow> (string option \<Rightarrow> exn + ds_field list) \<Rightarrow> request list \<Rightarrow> data_dict
     \<Rightarrow> conn option \<Rightarrow> (exn + conn) \<times> request list" where
  "upsert_connect cfg remote datastore_search log d connection =
     (let rid = resource_id d;
          core_name = core_name_of cfg rid
      in case connection_or_make cfg remote log core_name connection of
           (Some c, log1) \<Rightarrow> (Inr c, log1)
         | (None, log1) \<Rightarrow>
             (case datastore_search rid of
                Inl e \<Rightarrow> (Inl e, log1)
              | Inr ds \<Rightarrow>
                  (let create_dict =
                         \<lparr>resource_id = rid,
                          fields_key =
                            Some (filter (\<lambda>f. id_field f \<notin> set default_solr_fields) ds),
                          records = None,
                          filters = None\<rparr>
                   in case create cfg remote log1 create_dict None of
                        (Inl e, log2) \<Rightarrow> (Inl e, log2)
                      | (Inr v, log2) \<Rightarrow>
                          (case make_connection cfg remote log2 core_name of
                             (None, log3) \<Rightarrow>
                               (Inl (DatastoreSearchException
                                       (''Failed to index records for '' @ core_name)), log3)
                           | (Some c, log3) \<Rightarrow> (Inr c, log3)))))"

text \<open>Lines 250 to 256: one \<^verbatim>\<open>conn.add\<close> for each record.\<close>

fun add_records ::
  "config \<Rightarrow> remote \<Rightarrow> conn \<Rightarrow> string \<Rightarrow> request list \<Rightarrow> jobj list
     \<Rightarrow> (exn + unit) \<times> request list" where
  "add_records cfg remote c core_name log [] = (Inr (), log)"
| "add_records cfg remote c core_name log (r # rest) =
     (let (resp, log') = send remote log (Add c r False)
      in case resp of
           Failure m \<Rightarrow>
             (let errmsg = ''Failed to index records for '' @ core_name
              in (Inl (DatastoreSearchException (error_text cfg errmsg (Some m))), log'))
         | Body b \<Rightarrow> add_records cfg remote c core_name log' rest)"

text \<open>
  \<^verbatim>\<open>data_dict['records']\<close> raises \<^verbatim>\<open>KeyError\<close> where the key is absent. The commit of
  line 257 is outside every \<^verbatim>\<open>try\<close>: its \<^verbatim>\<open>SolrError\<close> is raised as it is.
\<close>

definition upsert ::
  "config \<Rightarrow> remote \<Rightarrow> (string option \<Rightarrow> exn + ds_field list) \<Rightarrow> request list \<Rightarrow> data_dict
     \<Rightarrow> conn option \<Rightarrow> (exn + py_value) \<times> request list" where
  "upsert cfg remote datastore_search log d connection =
     (case upsert_connect cfg remote datastore_search log d connection of
        (Inl e, log1) \<Rightarrow> (Inl e, log1)
      | (Inr c, log1) \<Rightarrow>
          (case records d of
             None \<Rightarrow> (Inl (KeyError ''records''), log1)
           | Some rs \<Rightarrow>
               if rs \<noteq> [] then
                 (case add_records cfg remote c (core_name_of cfg (resource_id d)) log1 rs of
                    (Inl e, log2) \<Rightarrow> (Inl e, log2)
                  | (Inr u, log2) \<Rightarrow>
                      (let (resp, log3) = send remote log2 (Commit c False)
                       in case resp of
                            Failure m \<Rightarrow> (Inl (SolrError m), log3)
                          | Body b \<Rightarrow> (Inr PyNone, log3)))
               else (Inr PyNone, log1)))"

subsection \<open>\<^verbatim>\<open>delete\<close>\<close>

text \<open>Lines 308 to 316: one \<^verbatim>\<open>conn.delete\<close> for each item of \<^verbatim>\<open>filters\<close>.\<close>

fun delete_filters ::
  "config \<Rightarrow> remote \<Rightarrow> conn \<Rightarrow> string \<Rightarrow> request list \<Rightarrow> (string \<times> string) list
     \<Rightarrow> (exn + py_value) \<times> request list" where
  "delete_filters cfg remote c core_name log [] = (Inr PyNone, log)"
| "delete_filters cfg remote c core_name log ((key, val) # rest) =
     (let errmsg = ''Could not delete records '' @ key @ '','' @ val @ '' in SOLR core ''
                     @ core_name;
          (resp, log') = send remote log (Delete c (key @ '':'' @ val) False)
      in case resp of
           Failure m \<Rightarrow> (Inl (DatastoreSearchException (error_text cfg errmsg (Some m))), log')
         | Body b \<Rightarrow> delete_filters cfg remote c core_name log' rest)"

text \<open>
  \<^verbatim>\<open>not data_dict.get('filters')\<close> holds where the key is absent and where the mapping
  is empty. The commit of line 299 is outside the \<^verbatim>\<open>try\<close>.
\<close>

definition delete ::
  "config \<Rightarrow> remote \<Rightarrow> request list \<Rightarrow> data_dict \<Rightarrow> conn option
     \<Rightarrow> (exn + py_value) \<times> request list" where
  "delete cfg remote log d connection =
     (let rid = resource_id d;
          core_name = core_name_of cfg rid
      in case connection_or_make cfg remote log core_name connection of
           (None, log1) \<Rightarrow> (Inr PyNone, log1)
         | (Some c, log1) \<Rightarrow>
             (case filters d of
                Some (kv # kvs) \<Rightarrow> delete_filters cfg remote c core_name log1 (kv # kvs)
              | _ \<Rightarrow>
                  (let errmsg = ''Could not delete SOLR core '' @ core_name;
                       (r, log2) = send remote log1 (Delete c ''*:*'' False)
                   in case r of
                        Failure m \<Rightarrow>
                          (Inl (DatastoreSearchException (error_text cfg errmsg (Some m))), log2)
                      | Body b \<Rightarrow>
                          (let (r2, log3) = send remote log2 (Commit c False)
                           in case r2 of
                                Failure m \<Rightarrow> (Inl (SolrError m), log3)
                              | Body b2 \<Rightarrow>
                                  (case send_api_request cfg remote log3 ''POST''
                                          (''cores/'' @ core_name @ ''/unload'') None of
                                     (Inl e, log4) \<Rightarrow> (Inl e, log4)
                                   | (Inr resp, log4) \<Rightarrow>
                                       (case resp_error resp of
                                          Some msg \<Rightarrow>
                                            (Inl (DatastoreSearchException
                                                    (error_text cfg errmsg msg)), log4)
                                        | None \<Rightarrow> (Inr PyNone, log4)))))))"

section \<open>The vocabulary of the statements\<close>

text \<open>
  Definitions that the statements and the proofs use and the source does not have:
  the three loops of \<open>create\<close> as one fail-fast run over the list of their requests, and
  what the request at a position of that list raises.
\<close>

definition name_of :: "jobj \<Rightarrow> string" where
  "name_of f = (case map_of f ''name'' of None \<Rightarrow> [] | Some n \<Rightarrow> py_str n)"

fun mutation_errmsg :: "string \<Rightarrow> request \<Rightarrow> string" where
  "mutation_errmsg core_name (SchemaPost c cmd f) =
     (if cmd = ''add-field'' then add_errmsg (name_of f) core_name
      else if cmd = ''replace-field'' then update_errmsg (name_of f) core_name
      else delete_errmsg (name_of f) core_name)"
| "mutation_errmsg core_name _ = []"

definition mutation_plan :: "conn \<Rightarrow> jobj list \<times> jobj list \<times> jobj list \<Rightarrow> request list" where
  "mutation_plan c d =
     (case d of (new_fields, updated_fields, remove_fields) \<Rightarrow>
        map (SchemaPost c ''add-field'') new_fields
        @ map (SchemaPost c ''replace-field'') updated_fields
        @ map (SchemaPost c ''delete-field'') remove_fields)"

definition raised_at ::
  "config \<Rightarrow> remote \<Rightarrow> string \<Rightarrow> request list \<Rightarrow> request list \<Rightarrow> nat \<Rightarrow> exn option" where
  "raised_at cfg remote core_name log plan i =
     post_error cfg (mutation_errmsg core_name (plan ! i)) (remote (log @ take i plan) (plan ! i))"

text \<open>
  A fail-fast run over a list of items: item \<open>x\<close> is sent as the request \<open>req x\<close>, and
  \<open>fails x r\<close> is what the source raises on the response \<open>r\<close>, if anything.
\<close>

fun run_items ::
  "('a \<Rightarrow> request) \<Rightarrow> ('a \<Rightarrow> response \<Rightarrow> exn option) \<Rightarrow> remote \<Rightarrow> request list \<Rightarrow> 'a list
     \<Rightarrow> exn option \<times> request list" where
  "run_items req fails remote log [] = (None, log)"
| "run_items req fails remote log (x # xs) =
     (case fails x (remote log (req x)) of
        Some e \<Rightarrow> (Some e, log @ [req x])
      | None \<Rightarrow> run_items req fails remote (log @ [req x]) xs)"

definition item_raised ::
  "('a \<Rightarrow> request) \<Rightarrow> ('a \<Rightarrow> response \<Rightarrow> exn option) \<Rightarrow> remote \<Rightarrow> request list \<Rightarrow> 'a list
     \<Rightarrow> nat \<Rightarrow> exn option" where
  "item_raised req fails remote log xs i =
     fails (xs ! i) (remote (log @ map req (take i xs)) (req (xs ! i)))"

definition run_plan ::
  "config \<Rightarrow> remote \<Rightarrow> string \<Rightarrow> request list \<Rightarrow> request list \<Rightarrow> exn option \<times> request list" where
  "run_plan cfg remote core_name log plan =
     run_items (\<lambda>q. q) (\<lambda>q. post_error cfg (mutation_errmsg core_name q)) remote log plan"

fun is_schema_post :: "request \<Rightarrow> bool" where
  "is_schema_post (SchemaPost c cmd f) = True"
| "is_schema_post _ = False"

definition add_fails :: "config \<Rightarrow> string \<Rightarrow> jobj \<Rightarrow> response \<Rightarrow> exn option" where
  "add_fails cfg core_name r resp =
     (case resp of
        Failure m \<Rightarrow>
          Some (DatastoreSearchException
                  (error_text cfg (''Failed to index records for '' @ core_name) (Some m)))
      | Body b \<Rightarrow> None)"

definition filter_fails :: "config \<Rightarrow> string \<Rightarrow> string \<times> string \<Rightarrow> response \<Rightarrow> exn option" where
  "filter_fails cfg core_name kv resp =
     (case resp of
        Failure m \<Rightarrow>
          Some (DatastoreSearchException
                  (error_text cfg
                     (''Could not delete records '' @ fst kv @ '','' @ snd kv
                        @ '' in SOLR core '' @ core_name) (Some m)))
      | Body b \<Rightarrow> None)"

definition filter_request :: "conn \<Rightarrow> string \<times> string \<Rightarrow> request" where
  "filter_request c kv = Delete c (fst kv @ '':'' @ snd kv) False"

subsection \<open>Example inputs\<close>

text \<open>
  A configuration with debug off, a connection to the core of resource \<open>r1\<close>, live
  schemas and servers: \<open>remote_ex\<close> accepts every request, the others fail on one kind of
  request or at one position of the log.
\<close>

definition cfg_ex :: config where
  "cfg_ex = \<lparr>prefix = ''ds_'', url = ''http://solr'', debug = False\<rparr>"

definition conn_ex :: conn where
  "conn_ex = Solr ''http://solr/solr/ds_r1''"

definition resp_ok :: json_resp where
  "resp_ok = \<lparr>resp_status = Some ''OK'', resp_error = None, resp_fields = None\<rparr>"

definition live_ex :: "jobj list" where
  "live_ex =
     [[(''name'', JStr ''_id''), (''type'', JStr ''int''), (''stored'', JBool True),
       (''indexed'', JBool True)],
      [(''name'', JStr ''age''), (''type'', JStr ''text''), (''multiValued'', JBool False),
       (''stored'', JBool True), (''indexed'', JBool True)],
      [(''name'', JStr ''legacy_col''), (''type'', JStr ''text''), (''stored'', JBool True),
       (''indexed'', JBool True)]]"

definition live_default_only :: "jobj list" where
  "live_default_only =
     [[(''name'', JStr ''_id''), (''type'', JStr ''int''), (''stored'', JBool True),
       (''indexed'', JBool True)]]"

definition remote_ex :: remote where
  "remote_ex log req =
     (case req of
        SchemaFields c \<Rightarrow> Body (resp_ok\<lparr>resp_fields := Some live_ex\<rparr>)
      | _ \<Rightarrow> Body resp_ok)"

definition remote_default_only :: remote where
  "remote_default_only log req =
     (case req of
        SchemaFields c \<Rightarrow> Body (resp_ok\<lparr>resp_fields := Some live_default_only\<rparr>)
      | _ \<Rightarrow> Body resp_ok)"

definition remote_replace_fails :: remote where
  "remote_replace_fails log req =
     (case req of
        SchemaFields c \<Rightarrow> Body (resp_ok\<lparr>resp_fields := Some live_ex\<rparr>)
      | SchemaPost c cmd f \<Rightarrow>
          if cmd = ''replace-field''
          then Body (resp_ok\<lparr>resp_error := Some (Some ''cannot replace'')\<rparr>)
          else Body resp_ok
      | _ \<Rightarrow> Body resp_ok)"

definition remote_schema_down :: remote where
  "remote_schema_down log req =
     (case req of
        SchemaFields c \<Rightarrow> Failure ''Connection to server timed out''
      | _ \<Rightarrow> Body resp_ok)"

definition remote_second_fails :: remote where
  "remote_second_fails log req = (if length log = 1 then Failure ''HTTP 400'' else Body resp_ok)"

definition dd_ex :: data_dict where
  "dd_ex =
     \<lparr>resource_id = Some ''r1'',
      fields_key = Some [\<lparr>id_field = ''age'', type_field = ''integer''\<rparr>,
                         \<lparr>id_field = ''nm'', type_field = ''text''\<rparr>],
      records = Some [[(''_id'', JStr ''1'')], [(''_id'', JStr ''2'')], [(''_id'', JStr ''3'')]],
      filters = Some [(''age'', ''7''), (''nm'', ''x''), (''city'', ''y'')]\<rparr>"

definition dd_unmapped :: data_dict where
  "dd_unmapped =
     \<lparr>resource_id = Some ''r1'',
      fields_key = Some [\<lparr>id_field = ''nm'', type_field = ''text''\<rparr>,
                         \<lparr>id_field = ''shape'', type_field = ''geometry''\<rparr>],
      records = None,
      filters = None\<rparr>"

definition dd_default :: data_dict where
  "dd_default =
     \<lparr>resource_id = Some ''r1'',
      fields_key = Some [\<lparr>id_field = ''_id'', type_field = ''integer''\<rparr>],
      records = None,
      filters = None\<rparr>"

definition dd_default_and_age :: data_dict where
  "dd_default_and_age =
     \<lparr>resource_id = Some ''r1'',
      fields_key = Some [\<lparr>id_field = ''indexed_ts'', type_field = ''timestamp''\<rparr>,
                         \<lparr>id_field = ''age'', type_field = ''text''\<rparr>,
                         \<lparr>id_field = ''legacy_col'', type_field = ''varchar''\<rparr>],
      records = None,
      filters = None\<rparr>"

definition new_ex :: "jobj list" where
  "new_ex = [[(''name'', JStr ''nm''), (''type'', JStr ''text''), (''stored'', JBool True),
              (''indexed'', JBool True)]]"

definition upd_ex :: "jobj list" where
  "upd_ex = [[(''name'', JStr ''age''), (''type'', JStr ''int''), (''multiValued'', JBool False),
              (''stored'', JBool True), (''indexed'', JBool True)]]"

definition rem_ex :: "jobj list" where
  "rem_ex = [[(''name'', JStr ''legacy_col'')]]"

definition plan_ex :: "request list" where
  "plan_ex = [SchemaPost conn_ex ''add-field'' (hd new_ex),
              SchemaPost conn_ex ''replace-field'' (hd upd_ex),
              SchemaPost conn_ex ''delete-field'' (hd rem_ex)]"

definition rs_ex :: "jobj list" where
  "rs_ex = [[(''_id'', JStr ''1'')], [(''_id'', JStr ''2'')], [(''_id'', JStr ''3'')]]"

definition fl_ex :: "(string \<times> string) list" where
  "fl_ex = [(''age'', ''7''), (''nm'', ''x''), (''city'', ''y'')]"

section \<open>Lemmas\<close>

lemma item_raised_0:
  "item_raised req fails remote log (x # xs) 0 = fails x (remote log (req x))"
  by (simp add: item_raised_def)

lemma item_raised_Suc:
  "item_raised req fails remote log (x # xs) (Suc i)
     = item_raised req fails remote (log @ [req x]) xs i"
  by (simp add: item_raised_def)

lemma run_items_cases:
  "run_items req fails remote log xs = (r, log') \<Longrightarrow>
     (r = None \<and> log' = log @ map req xs
        \<and> (\<forall>i<length xs. item_raised req fails remote log xs i = None))
   \<or> (\<exists>k<length xs. \<exists>e. r = Some e \<and> log' = log @ map req (take (Suc k) xs)
          \<and> item_raised req fails remote log xs k = Some e
          \<and> (\<forall>i<k. item_raised req fails remote log xs i = None))"
proof (induction xs arbitrary: log)
  case Nil
  then show ?case by simp
next
  case (Cons x xs)
  show ?case
  proof (cases "fails x (remote log (req x))")
    case (Some e)
    with Cons.prems have "r = Some e" "log' = log @ map req (take (Suc 0) (x # xs))" by auto
    moreover have "item_raised req fails remote log (x # xs) 0 = Some e"
      using Some by (simp add: item_raised_0)
    ultimately show ?thesis by blast
  next
    case None
    with Cons.prems have run: "run_items req fails remote (log @ [req x]) xs = (r, log')"
      by simp
    have z: "item_raised req fails remote log (x # xs) 0 = None"
      using None by (simp add: item_raised_0)
    from Cons.IH [OF run] show ?thesis
    proof (elim disjE conjE exE)
      assume a: "r = None" "log' = (log @ [req x]) @ map req xs"
        "\<forall>i<length xs. item_raised req fails remote (log @ [req x]) xs i = None"
      have "\<forall>i<length (x # xs). item_raised req fails remote log (x # xs) i = None"
      proof (intro allI impI)
        fix i assume "i < length (x # xs)"
        then show "item_raised req fails remote log (x # xs) i = None"
          using a(3) z by (cases i) (simp_all add: item_raised_Suc)
      qed
      with a show ?thesis by simp
    next
      fix k e
      assume b: "k < length xs" "r = Some e"
        "log' = (log @ [req x]) @ map req (take (Suc k) xs)"
        "item_raised req fails remote (log @ [req x]) xs k = Some e"
        "\<forall>i<k. item_raised req fails remote (log @ [req x]) xs i = None"
      have "\<forall>i<Suc k. item_raised req fails remote log (x # xs) i = None"
      proof (intro allI impI)
        fix i assume "i < Suc k"
        then show "item_raised req fails remote log (x # xs) i = None"
          using b(5) z by (cases i) (simp_all add: item_raised_Suc)
      qed
      moreover have "Suc k < length (x # xs)" using b(1) by simp
      moreover have "log' = log @ map req (take (Suc (Suc k)) (x # xs))" using b(3) by simp
      moreover have "item_raised req fails remote log (x # xs) (Suc k) = Some e"
        using b(4) by (simp add: item_raised_Suc)
      ultimately show ?thesis using b(2) by blast
    qed
  qed
qed

lemma run_plan_Nil [simp]: "run_plan cfg remote cn log [] = (None, log)"
  by (simp add: run_plan_def)

lemma run_plan_Cons [simp]:
  "run_plan cfg remote cn log (q # qs) =
     (case post_error cfg (mutation_errmsg cn q) (remote log q) of
        Some e \<Rightarrow> (Some e, log @ [q])
      | None \<Rightarrow> run_plan cfg remote cn (log @ [q]) qs)"
  by (simp add: run_plan_def split: option.splits)

lemma raised_at_item_raised:
  "raised_at cfg remote cn log plan i =
     item_raised (\<lambda>q. q) (\<lambda>q. post_error cfg (mutation_errmsg cn q)) remote log plan i"
  by (simp add: raised_at_def item_raised_def)

lemma run_plan_cases:
  assumes "run_plan cfg remote cn log qs = (r, log')"
  shows "(r = None \<and> log' = log @ qs \<and> (\<forall>i<length qs. raised_at cfg remote cn log qs i = None))
   \<or> (\<exists>k<length qs. \<exists>e. r = Some e \<and> log' = log @ take (Suc k) qs
          \<and> raised_at cfg remote cn log qs k = Some e
          \<and> (\<forall>i<k. raised_at cfg remote cn log qs i = None))"
  using run_items_cases [OF assms [unfolded run_plan_def]]
  by (simp add: raised_at_item_raised)

lemma run_plan_append:
  "run_plan cfg remote cn log (xs @ ys) =
     (case run_plan cfg remote cn log xs of
        (Some e, l) \<Rightarrow> (Some e, l)
      | (None, l) \<Rightarrow> run_plan cfg remote cn l ys)"
  by (induction xs arbitrary: log) (auto split: option.splits)

lemma post_fields_add:
  "\<forall>f\<in>set fs. map_of f ''name'' \<noteq> None \<Longrightarrow>
   post_fields cfg remote c cn ''add-field'' add_errmsg log fs =
     (case run_plan cfg remote cn log (map (SchemaPost c ''add-field'') fs) of
        (Some e, l) \<Rightarrow> (Inl e, l) | (None, l) \<Rightarrow> (Inr (), l))"
  by (induction fs arbitrary: log) (auto simp: send_def name_of_def split: option.splits)

lemma post_fields_replace:
  "\<forall>f\<in>set fs. map_of f ''name'' \<noteq> None \<Longrightarrow>
   post_fields cfg remote c cn ''replace-field'' update_errmsg log fs =
     (case run_plan cfg remote cn log (map (SchemaPost c ''replace-field'') fs) of
        (Some e, l) \<Rightarrow> (Inl e, l) | (None, l) \<Rightarrow> (Inr (), l))"
  by (induction fs arbitrary: log) (auto simp: send_def name_of_def split: option.splits)

lemma post_fields_delete:
  "\<forall>f\<in>set fs. map_of f ''name'' \<noteq> None \<Longrightarrow>
   post_fields cfg remote c cn ''delete-field'' delete_errmsg log fs =
     (case run_plan cfg remote cn log (map (SchemaPost c ''delete-field'') fs) of
        (Some e, l) \<Rightarrow> (Inl e, l) | (None, l) \<Rightarrow> (Inr (), l))"
  by (induction fs arbitrary: log) (auto simp: send_def name_of_def split: option.splits)

lemma apply_diff_run_plan:
  assumes "\<forall>f\<in>set new_fields \<union> set updated_fields \<union> set remove_fields. map_of f ''name'' \<noteq> None"
  shows "apply_diff cfg remote c cn log (new_fields, updated_fields, remove_fields) =
     (case run_plan cfg remote cn log (mutation_plan c (new_fields, updated_fields, remove_fields)) of
        (Some e, l) \<Rightarrow> (Inl e, l) | (None, l) \<Rightarrow> (Inr PyNone, l))"
proof -
  have n: "\<forall>f\<in>set new_fields. map_of f ''name'' \<noteq> None"
    and u: "\<forall>f\<in>set updated_fields. map_of f ''name'' \<noteq> None"
    and r: "\<forall>f\<in>set remove_fields. map_of f ''name'' \<noteq> None"
    using assms by blast+
  obtain r1 l1 where a: "run_plan cfg remote cn log (map (SchemaPost c ''add-field'') new_fields) = (r1, l1)"
    by (cases "run_plan cfg remote cn log (map (SchemaPost c ''add-field'') new_fields)")
  obtain r2 l2 where b: "run_plan cfg remote cn l1 (map (SchemaPost c ''replace-field'') updated_fields) = (r2, l2)"
    by (cases "run_plan cfg remote cn l1 (map (SchemaPost c ''replace-field'') updated_fields)")
  obtain r3 l3 where d: "run_plan cfg remote cn l2 (map (SchemaPost c ''delete-field'') remove_fields) = (r3, l3)"
    by (cases "run_plan cfg remote cn l2 (map (SchemaPost c ''delete-field'') remove_fields)")
  show ?thesis
    by (cases r1; cases r2; cases r3)
      (simp_all add: apply_diff_def mutation_plan_def run_plan_append
        post_fields_add [OF n] post_fields_replace [OF u] post_fields_delete [OF r] a b d)
qed

lemma key_solr_fields_inv:
  assumes "key_solr_fields fs acc = Inr keyed"
    and "\<And>k f. map_of acc k = Some f \<Longrightarrow> P k f"
    and "\<And>f n. f \<in> set fs \<Longrightarrow> map_of f ''name'' = Some n \<Longrightarrow>
           n \<notin> JStr ` set default_solr_fields \<Longrightarrow> P n f"
    and "map_of keyed k = Some f"
  shows "P k f"
  using assms
proof (induction fs arbitrary: acc)
  case Nil
  then show ?case by simp
next
  case (Cons solr_field rest)
  from Cons.prems(1) obtain n where n: "map_of solr_field ''name'' = Some n"
    by (auto split: option.splits)
  show ?case
  proof (cases "n \<in> JStr ` set default_solr_fields")
    case True
    with Cons.prems(1) n have "key_solr_fields rest acc = Inr keyed" by simp
    then show ?thesis
      using Cons.IH [of acc] Cons.prems(2,3,4) by simp
  next
    case False
    with Cons.prems(1) n
    have k: "key_solr_fields rest (AList.update n solr_field acc) = Inr keyed" by simp
    have "\<And>k f. map_of (AList.update n solr_field acc) k = Some f \<Longrightarrow> P k f"
      using Cons.prems(2) Cons.prems(3) [of solr_field n] n False
      by (auto simp: update_conv' split: if_splits)
    then show ?thesis
      using Cons.IH [OF k] Cons.prems(3,4) by simp
  qed
qed

lemma keyed_solr_fields_entry:
  assumes "key_solr_fields fs [] = Inr keyed" and "map_of keyed k = Some f"
  shows "f \<in> set fs \<and> map_of f ''name'' = Some k \<and> k \<notin> JStr ` set default_solr_fields"
  by (rule key_solr_fields_inv [OF assms(1) _ _ assms(2)]) simp_all

lemma keyed_solr_fields_key:
  assumes "key_solr_fields fs [] = Inr keyed" and "k \<in> set (map fst keyed)"
  shows "k \<notin> JStr ` set default_solr_fields"
proof -
  from assms(2) obtain f where "map_of keyed k = Some f"
    by (cases "map_of keyed k") (auto simp: map_of_eq_None_iff)
  with keyed_solr_fields_entry [OF assms(1)] show ?thesis by blast
qed

lemma classify_fields_step:
  assumes "classify_fields keyed (a # fs) (ids, new, upd) = Inr r"
  shows "\<exists>t new1 upd1.
      field_type_map (type_field a) = Some t
    \<and> classify_fields keyed fs
        (ids @ (if id_field a \<notin> set default_solr_fields then [id_field a] else []), new1, upd1)
        = Inr r
    \<and> (new1 = new \<or>
        map_of keyed (JStr (id_field a)) = None
        \<and> new1 = new @ [[(''name'', JStr (id_field a)), (''type'', JStr t),
                          (''stored'', JBool True), (''indexed'', JBool True)]])
    \<and> (upd1 = upd \<or>
        (\<exists>live lt. map_of keyed (JStr (id_field a)) = Some live
           \<and> map_of live ''type'' = Some lt \<and> lt \<noteq> JStr t
           \<and> upd1 = upd @ [AList.update ''type'' (JStr t) live]))"
  using assms by (auto simp: Let_def split: option.splits if_splits)

lemma classify_fields_ids:
  "classify_fields keyed fs (ids, new, upd) = Inr (ids', new', upd') \<Longrightarrow>
     ids' = ids @ filter (\<lambda>i. i \<notin> set default_solr_fields) (map id_field fs)"
proof (induction fs arbitrary: ids new upd)
  case Nil
  then show ?case by simp
next
  case (Cons a fs)
  from classify_fields_step [OF Cons.prems] obtain new1 upd1 where
    "classify_fields keyed fs
        (ids @ (if id_field a \<notin> set default_solr_fields then [id_field a] else []), new1, upd1)
        = Inr (ids', new', upd')"
    by blast
  from Cons.IH [OF this] show ?case by simp
qed

lemma classify_fields_mapped:
  "classify_fields keyed fs (ids, new, upd) = Inr (ids', new', upd') \<Longrightarrow>
     f \<in> set fs \<Longrightarrow> field_type_map (type_field f) \<noteq> None"
proof (induction fs arbitrary: ids new upd)
  case Nil
  then show ?case by simp
next
  case (Cons a fs)
  from classify_fields_step [OF Cons.prems(1)] obtain t new1 upd1 where
    t: "field_type_map (type_field a) = Some t" and
    step: "classify_fields keyed fs
        (ids @ (if id_field a \<notin> set default_solr_fields then [id_field a] else []), new1, upd1)
        = Inr (ids', new', upd')"
    by blast
  show ?case
  proof (cases "f = a")
    case True
    with t show ?thesis by simp
  next
    case False
    with Cons.prems(2) have "f \<in> set fs" by simp
    from Cons.IH [OF step this] show ?thesis .
  qed
qed

lemma classify_fields_new:
  "classify_fields keyed fs (ids, new, upd) = Inr (ids', new', upd') \<Longrightarrow>
     b \<in> set new' \<Longrightarrow>
     b \<in> set new \<or>
     (\<exists>f\<in>set fs. \<exists>t. map_of keyed (JStr (id_field f)) = None
        \<and> field_type_map (type_field f) = Some t
        \<and> b = [(''name'', JStr (id_field f)), (''type'', JStr t),
               (''stored'', JBool True), (''indexed'', JBool True)])"
proof (induction fs arbitrary: ids new upd)
  case Nil
  then show ?case by simp
next
  case (Cons a fs)
  from classify_fields_step [OF Cons.prems(1)] obtain t new1 upd1 where
    t: "field_type_map (type_field a) = Some t" and
    step: "classify_fields keyed fs
        (ids @ (if id_field a \<notin> set default_solr_fields then [id_field a] else []), new1, upd1)
        = Inr (ids', new', upd')" and
    new1: "new1 = new \<or>
        map_of keyed (JStr (id_field a)) = None
        \<and> new1 = new @ [[(''name'', JStr (id_field a)), (''type'', JStr t),
                          (''stored'', JBool True), (''indexed'', JBool True)]]"
    by blast
  from Cons.IH [OF step Cons.prems(2)] new1 t show ?case by auto
qed

lemma classify_fields_updated:
  "classify_fields keyed fs (ids, new, upd) = Inr (ids', new', upd') \<Longrightarrow>
     b \<in> set upd' \<Longrightarrow>
     b \<in> set upd \<or>
     (\<exists>f\<in>set fs. \<exists>t live lt. map_of keyed (JStr (id_field f)) = Some live
        \<and> field_type_map (type_field f) = Some t
        \<and> map_of live ''type'' = Some lt \<and> lt \<noteq> JStr t
        \<and> b = AList.update ''type'' (JStr t) live)"
proof (induction fs arbitrary: ids new upd)
  case Nil
  then show ?case by simp
next
  case (Cons a fs)
  from classify_fields_step [OF Cons.prems(1)] obtain t new1 upd1 where
    t: "field_type_map (type_field a) = Some t" and
    step: "classify_fields keyed fs
        (ids @ (if id_field a \<notin> set default_solr_fields then [id_field a] else []), new1, upd1)
        = Inr (ids', new', upd')" and
    upd1: "upd1 = upd \<or>
        (\<exists>live lt. map_of keyed (JStr (id_field a)) = Some live
           \<and> map_of live ''type'' = Some lt \<and> lt \<noteq> JStr t
           \<and> upd1 = upd @ [AList.update ''type'' (JStr t) live])"
    by blast
  from Cons.IH [OF step Cons.prems(2)] upd1 t show ?case by auto
qed

lemma classify_fields_unmapped:
  "f \<in> set fs \<Longrightarrow> field_type_map (type_field f) = None \<Longrightarrow>
     \<exists>e. classify_fields keyed fs acc = Inl e"
proof -
  assume a: "f \<in> set fs" "field_type_map (type_field f) = None"
  obtain ids new upd where acc: "acc = (ids, new, upd)" by (cases acc)
  show ?thesis
  proof (cases "classify_fields keyed fs acc")
    case (Inl e)
    then show ?thesis by blast
  next
    case (Inr r)
    obtain ids' new' upd' where "r = (ids', new', upd')" by (cases r)
    with Inr acc classify_fields_mapped [of keyed fs ids new upd ids' new' upd' f] a
    show ?thesis by simp
  qed
qed

lemma schema_mutation_is_post: "is_schema_mutation q \<Longrightarrow> is_schema_post q"
  by (cases q) simp_all

lemma make_connection_log:
  "make_connection cfg remote log cn = (r, log') \<Longrightarrow>
     log' = log @ [Ping (Solr (url cfg @ ''/solr/'' @ cn))]"
  by (auto simp: make_connection_def send_def Let_def split: response.splits if_splits)

lemma connection_or_make_log:
  "connection_or_make cfg remote log cn connection = (r, log') \<Longrightarrow>
     \<exists>ext. log' = log @ ext \<and> (\<forall>q\<in>set ext. \<not> is_schema_post q)"
  by (auto simp: connection_or_make_def dest!: make_connection_log split: option.splits)

lemma send_api_request_log:
  "send_api_request cfg remote log m ep body = (r, log') \<Longrightarrow>
     \<exists>ext. log' = log @ ext \<and> (\<forall>q\<in>set ext. \<not> is_schema_post q)"
  by (auto simp: send_api_request_def send_def Let_def split: response.splits if_splits)

lemma create_connect_log:
  assumes "create_connect cfg remote log cn connection = (r, log')"
  shows "\<exists>ext. log' = log @ ext \<and> (\<forall>q\<in>set ext. \<not> is_schema_post q)"
proof -
  obtain r0 l0 where a: "connection_or_make cfg remote log cn connection = (r0, l0)"
    by (cases "connection_or_make cfg remote log cn connection")
  from connection_or_make_log [OF a] obtain e0 where
    e0: "l0 = log @ e0" "\<forall>q\<in>set e0. \<not> is_schema_post q" by blast
  show ?thesis
  proof (cases r0)
    case (Some c)
    with assms a e0 show ?thesis by (auto simp: create_connect_def)
  next
    case None
    obtain r1 l1 where b: "send_api_request cfg remote l0 ''POST'' ''cores''
        (Some (cn, ''datastore_resource'')) = (r1, l1)"
      by (cases "send_api_request cfg remote l0 ''POST'' ''cores''
        (Some (cn, ''datastore_resource''))")
    from send_api_request_log [OF b] obtain e1 where
      e1: "l1 = l0 @ e1" "\<forall>q\<in>set e1. \<not> is_schema_post q" by blast
    obtain r2 l2 where c: "make_connection cfg remote l1 cn = (r2, l2)"
      by (cases "make_connection cfg remote l1 cn")
    from make_connection_log [OF c] have l2: "l2 = l1 @ [Ping (Solr (url cfg @ ''/solr/'' @ cn))]" .
    have "log' = l1 \<or> log' = l2"
      using assms a None b c
      by (auto simp: create_connect_def Let_def split: sum.splits option.splits)
    then show ?thesis
    proof
      assume "log' = l1"
      then have "log' = log @ (e0 @ e1)" using e0 e1 by simp
      moreover have "\<forall>q\<in>set (e0 @ e1). \<not> is_schema_post q" using e0 e1 by auto
      ultimately show ?thesis by blast
    next
      assume "log' = l2"
      then have "log' = log @ (e0 @ e1 @ [Ping (Solr (url cfg @ ''/solr/'' @ cn))])"
        using e0 e1 l2 by simp
      moreover have "\<forall>q\<in>set (e0 @ e1 @ [Ping (Solr (url cfg @ ''/solr/'' @ cn))]).
          \<not> is_schema_post q" using e0 e1 by auto
      ultimately show ?thesis by blast
    qed
  qed
qed

lemma read_schema_fields_log:
  "read_schema_fields cfg remote log c em = (r, log') \<Longrightarrow> log' = log @ [SchemaFields c]"
  by (auto simp: read_schema_fields_def send_def Let_def
      split: response.splits option.splits if_splits)

lemma read_schema_fields_ok:
  "read_schema_fields cfg remote log c em = (Inr fs, log') \<Longrightarrow>
     \<exists>resp. remote log (SchemaFields c) = Body resp \<and> resp_fields resp = Some fs"
  by (auto simp: read_schema_fields_def send_def Let_def
      split: response.splits option.splits if_splits)

lemma schema_diff_new:
  assumes "schema_diff fs ds = Inr (new, upd, rem)" and "b \<in> set new"
  shows "\<exists>f\<in>set ds. \<exists>t. field_type_map (type_field f) = Some t
        \<and> b = [(''name'', JStr (id_field f)), (''type'', JStr t),
               (''stored'', JBool True), (''indexed'', JBool True)]"
proof -
  from assms(1) obtain keyed ids where
    k: "key_solr_fields fs [] = Inr keyed" and
    c: "classify_fields keyed ds ([], [], []) = Inr (ids, new, upd)"
    by (auto simp: schema_diff_def split: sum.splits prod.splits)
  from classify_fields_new [OF c assms(2)] show ?thesis by auto
qed

lemma schema_diff_updated:
  assumes "schema_diff fs ds = Inr (new, upd, rem)" and "b \<in> set upd"
  shows "\<exists>f\<in>set ds. \<exists>t live lt. live \<in> set fs
        \<and> map_of live ''name'' = Some (JStr (id_field f))
        \<and> id_field f \<notin> set default_solr_fields
        \<and> field_type_map (type_field f) = Some t
        \<and> map_of live ''type'' = Some lt \<and> lt \<noteq> JStr t
        \<and> b = AList.update ''type'' (JStr t) live"
proof -
  from assms(1) obtain keyed ids where
    k: "key_solr_fields fs [] = Inr keyed" and
    c: "classify_fields keyed ds ([], [], []) = Inr (ids, new, upd)"
    by (auto simp: schema_diff_def split: sum.splits prod.splits)
  from classify_fields_updated [OF c assms(2)] obtain f t live lt where
    f: "f \<in> set ds" "map_of keyed (JStr (id_field f)) = Some live"
      "field_type_map (type_field f) = Some t" "map_of live ''type'' = Some lt" "lt \<noteq> JStr t"
      "b = AList.update ''type'' (JStr t) live"
    by auto
  from keyed_solr_fields_entry [OF k f(2)] have
    "live \<in> set fs" "map_of live ''name'' = Some (JStr (id_field f))"
    "id_field f \<notin> set default_solr_fields" by auto
  with f show ?thesis by blast
qed

lemma schema_diff_removed:
  assumes "schema_diff fs ds = Inr (new, upd, rem)" and "b \<in> set rem"
  shows "\<exists>k. b = [(''name'', k)] \<and> k \<notin> JStr ` set default_solr_fields
        \<and> (\<forall>f\<in>set ds. id_field f \<notin> set default_solr_fields \<longrightarrow> k \<noteq> JStr (id_field f))"
proof -
  from assms(1) obtain keyed ids where
    k: "key_solr_fields fs [] = Inr keyed" and
    c: "classify_fields keyed ds ([], [], []) = Inr (ids, new, upd)" and
    r: "rem = remove_fields_of keyed ids"
    by (auto simp: schema_diff_def split: sum.splits prod.splits)
  from classify_fields_ids [OF c] have
    ids: "ids = filter (\<lambda>i. i \<notin> set default_solr_fields) (map id_field ds)" by simp
  from assms(2) r obtain n where
    n: "b = [(''name'', n)]" "n \<in> set (map fst keyed)" "n \<notin> JStr ` set ids"
    by (auto simp: remove_fields_of_def)
  from keyed_solr_fields_key [OF k n(2)] have "n \<notin> JStr ` set default_solr_fields" .
  moreover have "\<forall>f\<in>set ds. id_field f \<notin> set default_solr_fields \<longrightarrow> n \<noteq> JStr (id_field f)"
    using n(3) ids by auto
  ultimately show ?thesis using n(1) by blast
qed

lemma schema_diff_names:
  assumes "schema_diff fs ds = Inr (new, upd, rem)"
  shows "\<forall>f\<in>set new \<union> set upd \<union> set rem. map_of f ''name'' \<noteq> None"
proof
  fix b assume "b \<in> set new \<union> set upd \<union> set rem"
  then consider "b \<in> set new" | "b \<in> set upd" | "b \<in> set rem" by blast
  then show "map_of b ''name'' \<noteq> None"
  proof cases
    case 1
    from schema_diff_new [OF assms 1] show ?thesis by auto
  next
    case 2
    from schema_diff_updated [OF assms 2] show ?thesis
      by (auto simp: update_conv')
  next
    case 3
    from schema_diff_removed [OF assms 3] show ?thesis by auto
  qed
qed

lemma schema_diff_unmapped:
  assumes "f \<in> set ds" and "field_type_map (type_field f) = None"
  shows "\<exists>e. schema_diff fs ds = Inl e"
proof (cases "key_solr_fields fs []")
  case (Inl e)
  then show ?thesis by (simp add: schema_diff_def)
next
  case (Inr keyed)
  from classify_fields_unmapped [OF assms, of keyed "([], [], [])"] obtain e where
    "classify_fields keyed ds ([], [], []) = Inl e" by blast
  with Inr show ?thesis by (simp add: schema_diff_def)
qed

lemma create_cases:
  "(\<exists>e pre. create cfg remote log d connection = (Inl e, log @ pre)
       \<and> (\<forall>q\<in>set pre. \<not> is_schema_post q))
   \<or> (\<exists>c em log1 fs diff pre.
         create_connect cfg remote log (core_name_of cfg (resource_id d)) connection
           = (Inr (c, em), log1)
       \<and> read_schema_fields cfg remote log1 c em = (Inr fs, log @ pre @ [SchemaFields c])
       \<and> log1 = log @ pre
       \<and> (\<forall>q\<in>set pre. \<not> is_schema_post q)
       \<and> schema_diff fs (get_fields d) = Inr diff
       \<and> create cfg remote log d connection =
           (case run_plan cfg remote (core_name_of cfg (resource_id d))
                   (log @ pre @ [SchemaFields c]) (mutation_plan c diff) of
              (Some e, l) \<Rightarrow> (Inl e, l)
            | (None, l) \<Rightarrow> (Inr PyNone, l)))"
proof -
  let ?cn = "core_name_of cfg (resource_id d)"
  obtain r1 log1 where a: "create_connect cfg remote log ?cn connection = (r1, log1)"
    by (cases "create_connect cfg remote log ?cn connection")
  from create_connect_log [OF a] obtain pre where
    pre: "log1 = log @ pre" "\<forall>q\<in>set pre. \<not> is_schema_post q" by blast
  show ?thesis
  proof (cases r1)
    case (Inl e)
    with a pre have "create cfg remote log d connection = (Inl e, log @ pre)"
      by (simp add: create_def)
    with pre(2) show ?thesis by blast
  next
    case (Inr ce)
    obtain c em where ce: "ce = (c, em)" by (cases ce)
    obtain r2 log2 where b: "read_schema_fields cfg remote log1 c em = (r2, log2)"
      by (cases "read_schema_fields cfg remote log1 c em")
    from read_schema_fields_log [OF b] have log2: "log2 = log @ pre @ [SchemaFields c]"
      using pre by simp
    have pre2: "\<forall>q\<in>set (pre @ [SchemaFields c]). \<not> is_schema_post q" using pre(2) by simp
    show ?thesis
    proof (cases r2)
      case (Inl e)
      with a Inr ce b log2 have
        "create cfg remote log d connection = (Inl e, log @ (pre @ [SchemaFields c]))"
        by (simp add: create_def)
      with pre2 show ?thesis by blast
    next
      case fs: (Inr fs)
      show ?thesis
      proof (cases "schema_diff fs (get_fields d)")
        case (Inl e)
        with a Inr ce b fs log2 have
          "create cfg remote log d connection = (Inl e, log @ (pre @ [SchemaFields c]))"
          by (simp add: create_def)
        with pre2 show ?thesis by blast
      next
        case diff: (Inr diff)
        obtain new upd rem where dd: "diff = (new, upd, rem)" by (cases diff)
        from schema_diff_names [OF diff [unfolded dd]] have
          names: "\<forall>f\<in>set new \<union> set upd \<union> set rem. map_of f ''name'' \<noteq> None" .
        have "create cfg remote log d connection =
           (case run_plan cfg remote ?cn (log @ pre @ [SchemaFields c]) (mutation_plan c diff) of
              (Some e, l) \<Rightarrow> (Inl e, l)
            | (None, l) \<Rightarrow> (Inr PyNone, l))"
          using a Inr ce b fs diff log2 dd apply_diff_run_plan [OF names]
          by (simp add: create_def)
        moreover have "create_connect cfg remote log ?cn connection = (Inr (c, em), log1)"
          using a Inr ce by simp
        moreover have "read_schema_fields cfg remote log1 c em
            = (Inr fs, log @ pre @ [SchemaFields c])"
          using b fs log2 by simp
        ultimately show ?thesis using pre diff by blast
      qed
    qed
  qed
qed

lemma run_plan_log:
  "run_plan cfg remote cn log qs = (r, log') \<Longrightarrow> \<exists>n. log' = log @ take n qs"
proof -
  assume a: "run_plan cfg remote cn log qs = (r, log')"
  from run_plan_cases [OF a] show ?thesis
  proof (elim disjE conjE exE)
    assume "log' = log @ qs"
    then have "log' = log @ take (length qs) qs" by simp
    then show ?thesis by blast
  next
    fix k assume "log' = log @ take (Suc k) qs"
    then show ?thesis by blast
  qed
qed

lemma mutation_plan_conn:
  "SchemaPost c cmd body \<in> set (mutation_plan c' diff) \<Longrightarrow> c = c'"
  by (cases diff) (auto simp: mutation_plan_def)

lemma create_issued_post:
  assumes "SchemaPost c cmd body \<in> set (issued log (create cfg remote log d connection))"
  shows "\<exists>em pre fs diff post.
      read_schema_fields cfg remote (log @ pre) c em = (Inr fs, log @ pre @ [SchemaFields c])
    \<and> schema_diff fs (get_fields d) = Inr diff
    \<and> SchemaPost c cmd body \<in> set (mutation_plan c diff)
    \<and> snd (create cfg remote log d connection) = log @ pre @ SchemaFields c # post"
proof -
  let ?cn = "core_name_of cfg (resource_id d)"
  from create_cases [of cfg remote log d connection] show ?thesis
  proof (elim disjE conjE exE)
    fix e pre
    assume "create cfg remote log d connection = (Inl e, log @ pre)"
      "\<forall>q\<in>set pre. \<not> is_schema_post q"
    with assms show ?thesis by (auto simp: issued_def)
  next
    fix c' em log1 fs diff pre
    assume r: "read_schema_fields cfg remote log1 c' em = (Inr fs, log @ pre @ [SchemaFields c'])"
      and l: "log1 = log @ pre"
      and p: "\<forall>q\<in>set pre. \<not> is_schema_post q"
      and s: "schema_diff fs (get_fields d) = Inr diff"
      and c: "create cfg remote log d connection =
           (case run_plan cfg remote ?cn (log @ pre @ [SchemaFields c']) (mutation_plan c' diff) of
              (Some e, l) \<Rightarrow> (Inl e, l)
            | (None, l) \<Rightarrow> (Inr PyNone, l))"
    obtain r0 l0 where rp: "run_plan cfg remote ?cn (log @ pre @ [SchemaFields c'])
        (mutation_plan c' diff) = (r0, l0)"
      by (cases "run_plan cfg remote ?cn (log @ pre @ [SchemaFields c']) (mutation_plan c' diff)")
    from run_plan_log [OF rp] obtain n where
      n: "l0 = (log @ pre @ [SchemaFields c']) @ take n (mutation_plan c' diff)" by blast
    have sn: "snd (create cfg remote log d connection) = l0"
      using c rp by (cases r0) simp_all
    then have iss: "issued log (create cfg remote log d connection)
        = pre @ [SchemaFields c'] @ take n (mutation_plan c' diff)"
      using n by (simp add: issued_def)
    from assms iss p have "SchemaPost c cmd body \<in> set (take n (mutation_plan c' diff))"
      by auto
    then have m: "SchemaPost c cmd body \<in> set (mutation_plan c' diff)"
      by (rule in_set_takeD)
    from mutation_plan_conn [OF m] have cc: "c = c'" .
    from sn n have "snd (create cfg remote log d connection)
        = log @ pre @ SchemaFields c' # take n (mutation_plan c' diff)" by simp
    with r l s m cc show ?thesis by blast
  qed
qed

lemma add_records_run_items:
  "add_records cfg remote c cn log rs =
     (case run_items (\<lambda>r. Add c r False) (add_fails cfg cn) remote log rs of
        (Some e, l) \<Rightarrow> (Inl e, l) | (None, l) \<Rightarrow> (Inr (), l))"
  by (induction rs arbitrary: log)
    (auto simp: send_def add_fails_def split: response.splits)

lemma delete_filters_run_items:
  "delete_filters cfg remote c cn log fl =
     (case run_items (filter_request c) (filter_fails cfg cn) remote log fl of
        (Some e, l) \<Rightarrow> (Inl e, l) | (None, l) \<Rightarrow> (Inr PyNone, l))"
  by (induction fl arbitrary: log)
    (auto simp: send_def filter_fails_def filter_request_def split: response.splits)

lemma add_fails_None: "add_fails cfg cn r resp = None \<longleftrightarrow> (\<exists>b. resp = Body b)"
  by (cases resp) (simp_all add: add_fails_def)

lemma add_fails_Some:
  "add_fails cfg cn r resp = Some e \<longleftrightarrow>
     (\<exists>m. resp = Failure m \<and> e = DatastoreSearchException
        (error_text cfg (''Failed to index records for '' @ cn) (Some m)))"
  by (cases resp) (auto simp: add_fails_def)

lemma filter_fails_None: "filter_fails cfg cn kv resp = None \<longleftrightarrow> (\<exists>b. resp = Body b)"
  by (cases resp) (simp_all add: filter_fails_def)

lemma filter_fails_Some:
  "filter_fails cfg cn kv resp = Some e \<longleftrightarrow>
     (\<exists>m. resp = Failure m \<and> e = DatastoreSearchException
        (error_text cfg (''Could not delete records '' @ fst kv @ '','' @ snd kv
                        @ '' in SOLR core '' @ cn) (Some m)))"
  by (cases resp) (auto simp: filter_fails_def)

lemma item_raised_map:
  "i < length xs \<Longrightarrow>
   item_raised req fails remote log xs i
     = fails (xs ! i) (remote (log @ take i (map req xs)) (map req xs ! i))"
  by (simp add: item_raised_def take_map)

lemma post_error_None_iff:
  "post_error cfg errmsg r = None \<longleftrightarrow> (\<exists>b. r = Body b \<and> resp_error b = None)"
  by (cases r) (auto simp: post_error_def split: option.splits)

lemma post_error_Some_iff:
  "post_error cfg errmsg r = Some e \<longleftrightarrow>
     (\<exists>m. r = Failure m
        \<and> e = DatastoreSearchException (if debug cfg then take 1000 m else errmsg))
   \<or> (\<exists>b msg. r = Body b \<and> resp_error b = Some msg
        \<and> e = DatastoreSearchException
              (if debug cfg then take 1000 (case msg of None \<Rightarrow> errmsg | Some t \<Rightarrow> t)
               else errmsg))"
  by (cases r) (auto simp: post_error_def error_text_def MAX_ERR_LEN_def split: option.splits)

lemma mutation_plan_nth:
  assumes "\<forall>f\<in>set new \<union> set upd \<union> set rem. map_of f ''name'' \<noteq> None"
    and "k < length (mutation_plan c (new, upd, rem))"
  shows "\<exists>cmd f n. mutation_plan c (new, upd, rem) ! k = SchemaPost c cmd f
           \<and> (cmd = ''add-field'' \<or> cmd = ''replace-field'' \<or> cmd = ''delete-field'')
           \<and> map_of f ''name'' = Some n"
proof -
  from assms(2) have "mutation_plan c (new, upd, rem) ! k \<in> set (mutation_plan c (new, upd, rem))"
    by (rule nth_mem)
  then obtain cmd f where
    "mutation_plan c (new, upd, rem) ! k = SchemaPost c cmd f"
    "cmd = ''add-field'' \<or> cmd = ''replace-field'' \<or> cmd = ''delete-field''"
    "f \<in> set new \<union> set upd \<union> set rem"
    by (auto simp: mutation_plan_def)
  with assms(1) show ?thesis by blast
qed

lemma mutation_errmsg_text:
  "map_of f ''name'' = Some n \<Longrightarrow>
   mutation_errmsg cn (SchemaPost c cmd f) =
     (if cmd = ''add-field''
      then ''Could not add field '' @ py_str n @ '' to SOLR Schema '' @ cn
      else if cmd = ''replace-field''
      then ''Could not update field '' @ py_str n @ '' on SOLR Schema '' @ cn
      else ''Could not delete field '' @ py_str n @ '' from SOLR Schema '' @ cn)"
  by (simp add: name_of_def add_errmsg_def update_errmsg_def delete_errmsg_def)

lemma key_solr_fields_complete:
  assumes "key_solr_fields fs acc = Inr keyed"
    and "map_of acc n \<noteq> None
         \<or> (\<exists>l\<in>set fs. map_of l ''name'' = Some n \<and> n \<notin> JStr ` set default_solr_fields)"
  shows "map_of keyed n \<noteq> None"
  using assms
proof (induction fs arbitrary: acc)
  case Nil
  then show ?case by simp
next
  case (Cons solr_field rest)
  from Cons.prems(1) obtain m where m: "map_of solr_field ''name'' = Some m"
    by (auto split: option.splits)
  show ?case
  proof (cases "m \<in> JStr ` set default_solr_fields")
    case True
    with Cons.prems(1) m have k: "key_solr_fields rest acc = Inr keyed" by simp
    have "map_of acc n \<noteq> None
         \<or> (\<exists>l\<in>set rest. map_of l ''name'' = Some n \<and> n \<notin> JStr ` set default_solr_fields)"
      using Cons.prems(2) m True by auto
    from Cons.IH [OF k this] show ?thesis .
  next
    case False
    with Cons.prems(1) m
    have k: "key_solr_fields rest (AList.update m solr_field acc) = Inr keyed" by simp
    have "map_of (AList.update m solr_field acc) n \<noteq> None
         \<or> (\<exists>l\<in>set rest. map_of l ''name'' = Some n \<and> n \<notin> JStr ` set default_solr_fields)"
      using Cons.prems(2) m by (auto simp: update_conv')
    from Cons.IH [OF k this] show ?thesis .
  qed
qed

lemma create_connect_errmsg:
  "create_connect cfg remote log cn connection = (Inr (c, em), log1) \<Longrightarrow>
     (em = None) = (\<exists>l. connection_or_make cfg remote log cn connection = (Some c, l))"
  by (auto simp: create_connect_def Let_def split: prod.splits option.splits sum.splits)

section \<open>The claims\<close>

subsection \<open>C1: an unmapped type fails before any schema mutation\<close>

text \<open>
  Claim C1. When some desired field whose id is not a default field has a type with no
  entry in \<open>field_type_map\<close>, \<open>create\<close> raises, and the requests it has sent hold no
  add-field, replace-field or delete-field request: every type is looked up while the
  fields are classified (lines 149 to 162), before the first loop that posts to the
  schema (line 166). This holds for every server, every starting log and whether or not
  a connection is passed in.
\<close>

theorem create_unmapped_type_raises_before_mutation:
  assumes "f \<in> set (get_fields d)"
    and "id_field f \<notin> set default_solr_fields"
    and "field_type_map (type_field f) = None"
  shows "(\<exists>e. fst (create cfg remote log d connection) = Inl e)
       \<and> filter is_schema_mutation (issued log (create cfg remote log d connection)) = []"
proof -
  from create_cases [of cfg remote log d connection] show ?thesis
  proof (elim disjE conjE exE)
    fix e pre
    assume a: "create cfg remote log d connection = (Inl e, log @ pre)"
      "\<forall>q\<in>set pre. \<not> is_schema_post q"
    then have "\<forall>q\<in>set pre. \<not> is_schema_mutation q"
      using schema_mutation_is_post by blast
    with a(1) show ?thesis by (simp add: issued_def filter_empty_conv)
  next
    fix c em log1 fs diff pre
    assume "schema_diff fs (get_fields d) = Inr diff"
    with schema_diff_unmapped [OF assms(1,3), of fs] show ?thesis by auto
  qed
qed

text \<open>
  The hypotheses hold for the desired field \<open>shape\<close> of type \<open>geometry\<close>.
\<close>

theorem create_unmapped_type_raises_before_mutation_witness:
  "\<lparr>id_field = ''shape'', type_field = ''geometry''\<rparr> \<in> set (get_fields dd_unmapped)
   \<and> id_field \<lparr>id_field = ''shape'', type_field = ''geometry''\<rparr> \<notin> set default_solr_fields
   \<and> field_type_map (type_field \<lparr>id_field = ''shape'', type_field = ''geometry''\<rparr>) = None
   \<and> (\<exists>e. fst (create cfg_ex remote_ex [] dd_unmapped (Some conn_ex)) = Inl e)
   \<and> filter is_schema_mutation
        (issued [] (create cfg_ex remote_ex [] dd_unmapped (Some conn_ex))) = []"
proof -
  let ?f = "\<lparr>id_field = ''shape'', type_field = ''geometry''\<rparr>"
  have h1: "?f \<in> set (get_fields dd_unmapped)"
    by (simp add: get_fields_def dd_unmapped_def)
  have h2: "id_field ?f \<notin> set default_solr_fields"
    by (simp add: default_solr_fields_def)
  have h3: "field_type_map (type_field ?f) = None"
    by (simp add: field_type_map_def field_type_map_items_def)
  from h1 h2 h3 create_unmapped_type_raises_before_mutation [OF h1 h2 h3]
  show ?thesis by blast
qed

subsection \<open>C2: adds, then updates, then removals, fail-fast and without rollback\<close>

text \<open>
  Claim C2. On a connected core whose schema was read and diffed into \<open>new_fields\<close>,
  \<open>updated_fields\<close> and \<open>remove_fields\<close>, the plan of \<open>create\<close> is one add-field request
  for each new field, then one replace-field request for each updated field, then one
  delete-field request for each removed field, in the order of the three lists, each
  request carrying one field. The statement reads the server's own answers: the answer
  to the \<open>i\<close>-th request of the plan, sent after the first \<open>i\<close>, is a failure of the
  transport (\<open>Failure m\<close>, a \<^verbatim>\<open>SolrError\<close>) or a body, with or without the key
  \<^verbatim>\<open>error\<close>. Either every request of the plan is answered by a body without
  \<^verbatim>\<open>error\<close>, the whole plan is sent in that order and \<open>create\<close> returns; or there is a
  first request that is answered by a failure or by a body with \<^verbatim>\<open>error\<close>, \<open>create\<close>
  raises the backend's exception with the message of that field and that operation (the
  server's own message, cut at 1000 characters, when debug is on), and what it has sent
  is the plan up to that request, that request being the last: nothing of the plan
  after it, and no request that would undo the ones before it.
\<close>

theorem create_applies_adds_updates_removals_in_order:
  assumes "create_connect cfg remote log (core_name_of cfg (resource_id d)) connection
             = (Inr (c, em), log1)"
    and "read_schema_fields cfg remote log1 c em = (Inr solr_fields, log2)"
    and "schema_diff solr_fields (get_fields d) = Inr (new_fields, updated_fields, remove_fields)"
    and "plan = map (SchemaPost c ''add-field'') new_fields
              @ map (SchemaPost c ''replace-field'') updated_fields
              @ map (SchemaPost c ''delete-field'') remove_fields"
    and "core_name = core_name_of cfg (resource_id d)"
  shows "((\<forall>i<length plan. \<exists>b.
             remote (log2 @ take i plan) (plan ! i) = Body b \<and> resp_error b = None)
          \<and> create cfg remote log d connection = (Inr PyNone, log2 @ plan))
       \<or> (\<exists>k<length plan. \<exists>cmd f n errmsg.
            (\<forall>i<k. \<exists>b.
               remote (log2 @ take i plan) (plan ! i) = Body b \<and> resp_error b = None)
          \<and> plan ! k = SchemaPost c cmd f
          \<and> map_of f ''name'' = Some n
          \<and> errmsg =
              (if cmd = ''add-field''
               then ''Could not add field '' @ py_str n @ '' to SOLR Schema '' @ core_name
               else if cmd = ''replace-field''
               then ''Could not update field '' @ py_str n @ '' on SOLR Schema '' @ core_name
               else ''Could not delete field '' @ py_str n @ '' from SOLR Schema ''
                      @ core_name)
          \<and> ((\<exists>m. remote (log2 @ take k plan) (plan ! k) = Failure m
                 \<and> create cfg remote log d connection
                     = (Inl (DatastoreSearchException
                               (if debug cfg then take 1000 m else errmsg)),
                        log2 @ take (Suc k) plan))
             \<or> (\<exists>b msg. remote (log2 @ take k plan) (plan ! k) = Body b
                 \<and> resp_error b = Some msg
                 \<and> create cfg remote log d connection
                     = (Inl (DatastoreSearchException
                               (if debug cfg
                                then take 1000 (case msg of None \<Rightarrow> errmsg | Some t \<Rightarrow> t)
                                else errmsg)),
                        log2 @ take (Suc k) plan))))"
proof -
  let ?cn = "core_name_of cfg (resource_id d)"
  have p: "plan = mutation_plan c (new_fields, updated_fields, remove_fields)"
    using assms(4) by (simp add: mutation_plan_def)
  from schema_diff_names [OF assms(3)] have
    names: "\<forall>f\<in>set new_fields \<union> set updated_fields \<union> set remove_fields.
              map_of f ''name'' \<noteq> None" .
  have c: "create cfg remote log d connection =
      (case run_plan cfg remote ?cn log2 plan of
         (Some e, l) \<Rightarrow> (Inl e, l) | (None, l) \<Rightarrow> (Inr PyNone, l))"
    using assms(1,2,3) apply_diff_run_plan [OF names] p by (simp add: create_def)
  obtain r l where rp: "run_plan cfg remote ?cn log2 plan = (r, l)"
    by (cases "run_plan cfg remote ?cn log2 plan")
  from run_plan_cases [OF rp] show ?thesis
  proof (elim disjE conjE exE)
    assume a: "r = None" "l = log2 @ plan"
      "\<forall>i<length plan. raised_at cfg remote ?cn log2 plan i = None"
    have "\<forall>i<length plan. \<exists>b.
        remote (log2 @ take i plan) (plan ! i) = Body b \<and> resp_error b = None"
      using a(3) by (simp add: raised_at_def post_error_None_iff)
    moreover have "create cfg remote log d connection = (Inr PyNone, log2 @ plan)"
      using c rp a(1,2) by simp
    ultimately show ?thesis by blast
  next
    fix k e
    assume k: "k < length plan" "r = Some e" "l = log2 @ take (Suc k) plan"
      "raised_at cfg remote ?cn log2 plan k = Some e"
      "\<forall>i<k. raised_at cfg remote ?cn log2 plan i = None"
    have before: "\<forall>i<k. \<exists>b.
        remote (log2 @ take i plan) (plan ! i) = Body b \<and> resp_error b = None"
      using k(5) by (simp add: raised_at_def post_error_None_iff)
    from mutation_plan_nth [OF names, of k c] k(1) p obtain cmd f n where
      q: "plan ! k = SchemaPost c cmd f" "map_of f ''name'' = Some n"
      by auto
    define errmsg where "errmsg =
              (if cmd = ''add-field''
               then ''Could not add field '' @ py_str n @ '' to SOLR Schema '' @ core_name
               else if cmd = ''replace-field''
               then ''Could not update field '' @ py_str n @ '' on SOLR Schema '' @ core_name
               else ''Could not delete field '' @ py_str n @ '' from SOLR Schema ''
                      @ core_name)"
    have em: "mutation_errmsg ?cn (plan ! k) = errmsg"
      using q mutation_errmsg_text [OF q(2), of ?cn c cmd] assms(5)
      by (simp add: errmsg_def)
    have cr: "create cfg remote log d connection = (Inl e, log2 @ take (Suc k) plan)"
      using c rp k(2,3) by simp
    from k(4) have "post_error cfg errmsg (remote (log2 @ take k plan) (plan ! k)) = Some e"
      by (simp add: raised_at_def em)
    then have "(\<exists>m. remote (log2 @ take k plan) (plan ! k) = Failure m
                 \<and> create cfg remote log d connection
                     = (Inl (DatastoreSearchException
                               (if debug cfg then take 1000 m else errmsg)),
                        log2 @ take (Suc k) plan))
             \<or> (\<exists>b msg. remote (log2 @ take k plan) (plan ! k) = Body b
                 \<and> resp_error b = Some msg
                 \<and> create cfg remote log d connection
                     = (Inl (DatastoreSearchException
                               (if debug cfg
                                then take 1000 (case msg of None \<Rightarrow> errmsg | Some t \<Rightarrow> t)
                                else errmsg)),
                        log2 @ take (Suc k) plan))"
      unfolding post_error_Some_iff using cr by blast
    with k(1) before q errmsg_def show ?thesis by blast
  qed
qed

text \<open>
  The hypotheses hold on a server that answers every replace-field request with an
  \<^verbatim>\<open>error\<close> body: the plan is add \<open>nm\<close>, replace \<open>age\<close>, delete \<open>legacy_col\<close>; the first
  is accepted, the second is refused, \<open>create\<close> raises for the field \<open>age\<close> and the
  removal is never sent.
\<close>

theorem create_applies_adds_updates_removals_in_order_witness:
  "create_connect cfg_ex remote_replace_fails [] (core_name_of cfg_ex (resource_id dd_ex))
      (Some conn_ex) = (Inr (conn_ex, None), [])
   \<and> read_schema_fields cfg_ex remote_replace_fails [] conn_ex None
      = (Inr live_ex, [SchemaFields conn_ex])
   \<and> schema_diff live_ex (get_fields dd_ex) = Inr (new_ex, upd_ex, rem_ex)
   \<and> plan_ex = map (SchemaPost conn_ex ''add-field'') new_ex
              @ map (SchemaPost conn_ex ''replace-field'') upd_ex
              @ map (SchemaPost conn_ex ''delete-field'') rem_ex
   \<and> remote_replace_fails ([SchemaFields conn_ex] @ take 0 plan_ex) (plan_ex ! 0) = Body resp_ok
   \<and> remote_replace_fails ([SchemaFields conn_ex] @ take 1 plan_ex) (plan_ex ! 1)
       = Body (resp_ok\<lparr>resp_error := Some (Some ''cannot replace'')\<rparr>)
   \<and> create cfg_ex remote_replace_fails [] dd_ex (Some conn_ex)
       = (Inl (DatastoreSearchException ''Could not update field age on SOLR Schema ds_r1''),
          [SchemaFields conn_ex] @ take 2 plan_ex)
   \<and> (((\<forall>i<length plan_ex. \<exists>b.
             remote_replace_fails ([SchemaFields conn_ex] @ take i plan_ex) (plan_ex ! i) = Body b
             \<and> resp_error b = None)
          \<and> create cfg_ex remote_replace_fails [] dd_ex (Some conn_ex)
              = (Inr PyNone, [SchemaFields conn_ex] @ plan_ex))
       \<or> (\<exists>k<length plan_ex. \<exists>cmd f n errmsg.
            (\<forall>i<k. \<exists>b.
               remote_replace_fails ([SchemaFields conn_ex] @ take i plan_ex) (plan_ex ! i) = Body b
               \<and> resp_error b = None)
          \<and> plan_ex ! k = SchemaPost conn_ex cmd f
          \<and> map_of f ''name'' = Some n
          \<and> errmsg =
              (if cmd = ''add-field''
               then ''Could not add field '' @ py_str n @ '' to SOLR Schema ''
                      @ core_name_of cfg_ex (resource_id dd_ex)
               else if cmd = ''replace-field''
               then ''Could not update field '' @ py_str n @ '' on SOLR Schema ''
                      @ core_name_of cfg_ex (resource_id dd_ex)
               else ''Could not delete field '' @ py_str n @ '' from SOLR Schema ''
                      @ core_name_of cfg_ex (resource_id dd_ex))
          \<and> ((\<exists>m. remote_replace_fails ([SchemaFields conn_ex] @ take k plan_ex) (plan_ex ! k)
                     = Failure m
                 \<and> create cfg_ex remote_replace_fails [] dd_ex (Some conn_ex)
                     = (Inl (DatastoreSearchException
                               (if debug cfg_ex then take 1000 m else errmsg)),
                        [SchemaFields conn_ex] @ take (Suc k) plan_ex))
             \<or> (\<exists>b msg. remote_replace_fails ([SchemaFields conn_ex] @ take k plan_ex)
                          (plan_ex ! k) = Body b
                 \<and> resp_error b = Some msg
                 \<and> create cfg_ex remote_replace_fails [] dd_ex (Some conn_ex)
                     = (Inl (DatastoreSearchException
                               (if debug cfg_ex
                                then take 1000 (case msg of None \<Rightarrow> errmsg | Some t \<Rightarrow> t)
                                else errmsg)),
                        [SchemaFields conn_ex] @ take (Suc k) plan_ex)))))"
proof -
  have h1: "create_connect cfg_ex remote_replace_fails []
      (core_name_of cfg_ex (resource_id dd_ex)) (Some conn_ex) = (Inr (conn_ex, None), [])"
    by code_simp
  have h2: "read_schema_fields cfg_ex remote_replace_fails [] conn_ex None
      = (Inr live_ex, [SchemaFields conn_ex])"
    by code_simp
  have h3: "schema_diff live_ex (get_fields dd_ex) = Inr (new_ex, upd_ex, rem_ex)"
    by code_simp
  have h4: "plan_ex = map (SchemaPost conn_ex ''add-field'') new_ex
              @ map (SchemaPost conn_ex ''replace-field'') upd_ex
              @ map (SchemaPost conn_ex ''delete-field'') rem_ex"
    by code_simp
  have a0: "remote_replace_fails ([SchemaFields conn_ex] @ take 0 plan_ex) (plan_ex ! 0)
      = Body resp_ok"
    by code_simp
  have a1: "remote_replace_fails ([SchemaFields conn_ex] @ take 1 plan_ex) (plan_ex ! 1)
       = Body (resp_ok\<lparr>resp_error := Some (Some ''cannot replace'')\<rparr>)"
    by code_simp
  have ev: "create cfg_ex remote_replace_fails [] dd_ex (Some conn_ex)
       = (Inl (DatastoreSearchException ''Could not update field age on SOLR Schema ds_r1''),
          [SchemaFields conn_ex] @ take 2 plan_ex)"
    by code_simp
  from h1 h2 h3 h4 a0 a1 ev
    create_applies_adds_updates_removals_in_order [OF h1 h2 h3 h4 refl]
  show ?thesis by blast
qed

subsection \<open>C3: a desired set equal to the live schema\<close>

text \<open>
  Claim C3 says that \<open>create\<close> sends no schema mutation when the desired fields equal the
  live schema modulo the default fields. The source sends one: a desired field named as
  a default field is never found among the keyed live fields (line 141 leaves the default
  fields out), so line 152 classifies it as new. Here the live schema holds the default
  field \<open>_id\<close> only and the desired fields hold \<open>_id\<close> only, so that neither side has a
  field that is not a default field; \<open>create\<close> posts an add-field request for \<open>_id\<close>.
\<close>

theorem create_adds_default_field_when_schema_matches:
  "filter (\<lambda>f. map_of f ''name'' \<notin> Some ` JStr ` set default_solr_fields) live_default_only = []
   \<and> filter (\<lambda>f. id_field f \<notin> set default_solr_fields) (get_fields dd_default) = []
   \<and> create cfg_ex remote_default_only [] dd_default (Some conn_ex)
       = (Inr PyNone,
          [SchemaFields conn_ex,
           SchemaPost conn_ex ''add-field''
             [(''name'', JStr ''_id''), (''type'', JStr ''int''),
              (''stored'', JBool True), (''indexed'', JBool True)]])"
  by code_simp

text \<open>
  The default-named desired field is the only way to such a request. Let every live
  field that is not a default field have the name of a desired field whose mapped type
  is its type, and every desired field be named as a live field. When no desired field
  is named as a default field and no two desired fields share an id, the diff is three
  empty lists; and \<open>create\<close> sends no schema mutation whenever every diff it can compute
  is empty.
\<close>

lemma schema_diff_empty_when_schema_matches:
  assumes live: "\<forall>l\<in>set fs. \<forall>n. map_of l ''name'' = Some n \<longrightarrow>
          n \<notin> JStr ` set default_solr_fields \<longrightarrow>
          (\<exists>f\<in>set ds. \<exists>t. n = JStr (id_field f) \<and> field_type_map (type_field f) = Some t
              \<and> map_of l ''type'' = Some (JStr t))"
    and desired: "\<forall>f\<in>set ds. id_field f \<notin> set default_solr_fields \<longrightarrow>
          (\<exists>l\<in>set fs. map_of l ''name'' = Some (JStr (id_field f)))"
    and nd: "\<forall>f\<in>set ds. id_field f \<notin> set default_solr_fields"
    and di: "distinct (map id_field ds)"
    and sd: "schema_diff fs ds = Inr (new, upd, rem)"
  shows "new = [] \<and> upd = [] \<and> rem = []"
proof -
  from sd obtain keyed ids where
    k: "key_solr_fields fs [] = Inr keyed" and
    c: "classify_fields keyed ds ([], [], []) = Inr (ids, new, upd)" and
    r: "rem = remove_fields_of keyed ids"
    by (auto simp: schema_diff_def split: sum.splits prod.splits)
  have inj: "\<And>f g. f \<in> set ds \<Longrightarrow> g \<in> set ds \<Longrightarrow> id_field f = id_field g \<Longrightarrow> f = g"
    using di by (meson distinct_map inj_onD)
  have new: "new = []"
  proof (rule ccontr)
    assume "new \<noteq> []"
    then obtain b where "b \<in> set new" by (cases new) auto
    from classify_fields_new [OF c this] obtain f where
      f: "f \<in> set ds" "map_of keyed (JStr (id_field f)) = None" by auto
    from nd f(1) have d: "id_field f \<notin> set default_solr_fields" by blast
    with desired f(1) obtain l where
      "l \<in> set fs" "map_of l ''name'' = Some (JStr (id_field f))"
      by blast
    moreover have "JStr (id_field f) \<notin> JStr ` set default_solr_fields" using d by auto
    ultimately have "map_of keyed (JStr (id_field f)) \<noteq> None"
      using key_solr_fields_complete [OF k, of "JStr (id_field f)"] by blast
    with f(2) show False by simp
  qed
  have upd: "upd = []"
  proof (rule ccontr)
    assume "upd \<noteq> []"
    then obtain b where "b \<in> set upd" by (cases upd) auto
    from classify_fields_updated [OF c this] obtain f t live lt where
      f: "f \<in> set ds" "map_of keyed (JStr (id_field f)) = Some live"
        "field_type_map (type_field f) = Some t" "map_of live ''type'' = Some lt" "lt \<noteq> JStr t"
      by auto
    from keyed_solr_fields_entry [OF k f(2)] have
      l: "live \<in> set fs" "map_of live ''name'' = Some (JStr (id_field f))"
        "JStr (id_field f) \<notin> JStr ` set default_solr_fields" by auto
    with live obtain g t' where
      g: "g \<in> set ds" "JStr (id_field f) = JStr (id_field g)"
        "field_type_map (type_field g) = Some t'" "map_of live ''type'' = Some (JStr t')"
      by blast
    from inj [OF f(1) g(1)] g(2) have "f = g" by simp
    with f(3,4,5) g(3,4) show False by simp
  qed
  have rem: "rem = []"
  proof (rule ccontr)
    assume "rem \<noteq> []"
    then obtain b where "b \<in> set rem" by (cases rem) auto
    with r obtain n where n: "n \<in> set (map fst keyed)" "n \<notin> JStr ` set ids"
      by (auto simp: remove_fields_of_def)
    from n(1) obtain live where kl: "map_of keyed n = Some live"
      by (cases "map_of keyed n") (auto simp: map_of_eq_None_iff)
    from keyed_solr_fields_entry [OF k kl] have
      l: "live \<in> set fs" "map_of live ''name'' = Some n"
        "n \<notin> JStr ` set default_solr_fields" by auto
    with live obtain g where g: "g \<in> set ds" "n = JStr (id_field g)"
      by blast
    from classify_fields_ids [OF c] have
      "ids = filter (\<lambda>i. i \<notin> set default_solr_fields) (map id_field ds)" by simp
    moreover have "id_field g \<notin> set default_solr_fields" using l(3) g(2) by auto
    ultimately have "id_field g \<in> set ids" using g(1) by auto
    with n(2) g(2) show False by auto
  qed
  from new upd rem show ?thesis by simp
qed

lemma create_no_mutation_when_diff_empty:
  assumes "\<And>c em log1 fs log2 diff.
      create_connect cfg remote log (core_name_of cfg (resource_id d)) connection
        = (Inr (c, em), log1) \<Longrightarrow>
      read_schema_fields cfg remote log1 c em = (Inr fs, log2) \<Longrightarrow>
      schema_diff fs (get_fields d) = Inr diff \<Longrightarrow> diff = ([], [], [])"
  shows "filter is_schema_mutation (issued log (create cfg remote log d connection)) = []"
proof -
  from create_cases [of cfg remote log d connection] show ?thesis
  proof (elim disjE conjE exE)
    fix e pre
    assume a: "create cfg remote log d connection = (Inl e, log @ pre)"
      "\<forall>q\<in>set pre. \<not> is_schema_post q"
    then have "\<forall>q\<in>set pre. \<not> is_schema_mutation q"
      using schema_mutation_is_post by blast
    with a(1) show ?thesis by (simp add: issued_def filter_empty_conv)
  next
    fix c em log1 fs diff pre
    assume b: "create_connect cfg remote log (core_name_of cfg (resource_id d)) connection
           = (Inr (c, em), log1)"
      "read_schema_fields cfg remote log1 c em = (Inr fs, log @ pre @ [SchemaFields c])"
      "\<forall>q\<in>set pre. \<not> is_schema_post q"
      "schema_diff fs (get_fields d) = Inr diff"
      "create cfg remote log d connection =
           (case run_plan cfg remote (core_name_of cfg (resource_id d))
                   (log @ pre @ [SchemaFields c]) (mutation_plan c diff) of
              (Some e, l) \<Rightarrow> (Inl e, l)
            | (None, l) \<Rightarrow> (Inr PyNone, l))"
    from assms [OF b(1,2,4)] have "mutation_plan c diff = []"
      by (simp add: mutation_plan_def)
    with b(5) have "create cfg remote log d connection = (Inr PyNone, log @ pre @ [SchemaFields c])"
      by simp
    moreover have "\<forall>q\<in>set pre. \<not> is_schema_mutation q"
      using b(3) schema_mutation_is_post by blast
    ultimately show ?thesis by (simp add: issued_def filter_empty_conv)
  qed
qed

subsection \<open>C4: the value that \<open>create\<close> returns\<close>

text \<open>
  Claim C4 says that a successful \<open>create\<close> returns a boolean, true when a schema change
  was applied. The source returns \<^verbatim>\<open>None\<close> on both branches of line 217. On a server
  that accepts every request, with three changes to apply, \<open>create\<close> applies the three
  and returns \<^verbatim>\<open>None\<close>, not \<^verbatim>\<open>True\<close>.
\<close>

theorem create_returns_bool_counterexample:
  "fst (create cfg_ex remote_ex [] dd_ex (Some conn_ex)) = Inr PyNone
   \<and> filter is_schema_mutation (issued [] (create cfg_ex remote_ex [] dd_ex (Some conn_ex)))
       = plan_ex
   \<and> plan_ex \<noteq> []
   \<and> fst (create cfg_ex remote_ex [] dd_ex (Some conn_ex)) \<noteq> Inr (PyBool True)"
  by code_simp

text \<open>
  Claim C4, amended. Every successful call to \<open>create\<close> returns \<^verbatim>\<open>None\<close>, whether or not
  a schema change was applied.
\<close>

theorem create_returns_none:
  assumes "fst (create cfg remote log d connection) = Inr v"
  shows "v = PyNone"
proof -
  from create_cases [of cfg remote log d connection] show ?thesis
  proof (elim disjE conjE exE)
    fix e pre
    assume "create cfg remote log d connection = (Inl e, log @ pre)"
    with assms show ?thesis by simp
  next
    fix c em log1 fs diff pre
    assume "create cfg remote log d connection =
           (case run_plan cfg remote (core_name_of cfg (resource_id d))
              (log @ pre @ [SchemaFields c]) (mutation_plan c diff) of
              (Some e, l) \<Rightarrow> (Inl e, l)
            | (None, l) \<Rightarrow> (Inr PyNone, l))"
    with assms show ?thesis by (auto split: prod.splits option.splits)
  qed
qed

theorem create_returns_none_witness:
  "fst (create cfg_ex remote_ex [] dd_ex (Some conn_ex)) = Inr PyNone"
proof -
  have "fst (create cfg_ex remote_ex [] dd_ex (Some conn_ex)) = Inr PyNone
      \<or> fst (create cfg_ex remote_ex [] dd_ex (Some conn_ex)) = Inr (PyBool True)"
    by code_simp
  then obtain v where v: "fst (create cfg_ex remote_ex [] dd_ex (Some conn_ex)) = Inr v"
    by blast
  from create_returns_none [OF v] v show ?thesis by simp
qed

subsection \<open>C5: default fields among the desired fields\<close>

text \<open>
  Claim C5 says that no add-field and no replace-field request names a default field.
  The test of line 150 guards the append to \<^verbatim>\<open>ds_field_ids\<close> only; a desired field
  named \<open>indexed_ts\<close> goes on to line 152 and is posted as a new field.
\<close>

theorem create_add_field_names_default_field:
  "''indexed_ts'' \<in> set default_solr_fields
   \<and> \<lparr>id_field = ''indexed_ts'', type_field = ''timestamp''\<rparr> \<in> set (get_fields dd_default_and_age)
   \<and> SchemaPost conn_ex ''add-field''
        [(''name'', JStr ''indexed_ts''), (''type'', JStr ''date''),
         (''stored'', JBool True), (''indexed'', JBool True)]
       \<in> set (issued [] (create cfg_ex remote_ex [] dd_default_and_age (Some conn_ex)))"
  by code_simp

text \<open>
  The other half holds: a replace-field request names a desired field that is not a
  default field. An add-field request names a desired field, default or not.
\<close>

lemma create_replace_field_never_names_default:
  assumes "SchemaPost c ''replace-field'' body
             \<in> set (issued log (create cfg remote log d connection))"
  shows "\<exists>f\<in>set (get_fields d). map_of body ''name'' = Some (JStr (id_field f))
           \<and> id_field f \<notin> set default_solr_fields"
proof -
  from create_issued_post [OF assms] obtain fs diff where
    s: "schema_diff fs (get_fields d) = Inr diff" and
    m: "SchemaPost c ''replace-field'' body \<in> set (mutation_plan c diff)" by blast
  obtain new upd rem where d: "diff = (new, upd, rem)" by (cases diff)
  from m d have "body \<in> set upd" by (auto simp: mutation_plan_def)
  from schema_diff_updated [OF s [unfolded d] this] show ?thesis
    by (auto simp: update_conv')
qed

lemma create_add_field_names_desired_field:
  assumes "SchemaPost c ''add-field'' body
             \<in> set (issued log (create cfg remote log d connection))"
  shows "\<exists>f\<in>set (get_fields d). \<exists>t. field_type_map (type_field f) = Some t
           \<and> body = [(''name'', JStr (id_field f)), (''type'', JStr t),
                     (''stored'', JBool True), (''indexed'', JBool True)]"
proof -
  from create_issued_post [OF assms] obtain fs diff where
    s: "schema_diff fs (get_fields d) = Inr diff" and
    m: "SchemaPost c ''add-field'' body \<in> set (mutation_plan c diff)" by blast
  obtain new upd rem where d: "diff = (new, upd, rem)" by (cases diff)
  from m d have "body \<in> set new" by (auto simp: mutation_plan_def)
  from schema_diff_new [OF s [unfolded d] this] show ?thesis .
qed

subsection \<open>C6: what is removed\<close>

text \<open>
  Claim C6. Every delete-field request that \<open>create\<close> sends has the body
  \<^verbatim>\<open>{'name': k}\<close> where \<open>k\<close> is not a default field and is not the id of a desired field
  that is not a default field.
\<close>

theorem create_never_removes_default_or_desired:
  assumes "SchemaPost c ''delete-field'' body
             \<in> set (issued log (create cfg remote log d connection))"
  shows "\<exists>k. body = [(''name'', k)]
       \<and> k \<notin> JStr ` set default_solr_fields
       \<and> (\<forall>f\<in>set (get_fields d).
             id_field f \<notin> set default_solr_fields \<longrightarrow> k \<noteq> JStr (id_field f))"
proof -
  from create_issued_post [OF assms] obtain fs diff where
    s: "schema_diff fs (get_fields d) = Inr diff" and
    m: "SchemaPost c ''delete-field'' body \<in> set (mutation_plan c diff)" by blast
  obtain new upd rem where d: "diff = (new, upd, rem)" by (cases diff)
  from m d have "body \<in> set rem" by (auto simp: mutation_plan_def)
  from schema_diff_removed [OF s [unfolded d] this] show ?thesis .
qed

text \<open>
  The live field \<open>legacy_col\<close> is not desired, and \<open>create\<close> removes it.
\<close>

theorem create_never_removes_default_or_desired_witness:
  "SchemaPost conn_ex ''delete-field'' [(''name'', JStr ''legacy_col'')]
     \<in> set (issued [] (create cfg_ex remote_ex [] dd_ex (Some conn_ex)))
   \<and> (\<exists>k. [(''name'', JStr ''legacy_col'')] = [(''name'', k)]
        \<and> k \<notin> JStr ` set default_solr_fields
        \<and> (\<forall>f\<in>set (get_fields dd_ex).
              id_field f \<notin> set default_solr_fields \<longrightarrow> k \<noteq> JStr (id_field f)))"
proof -
  have h: "SchemaPost conn_ex ''delete-field'' [(''name'', JStr ''legacy_col'')]
     \<in> set (issued [] (create cfg_ex remote_ex [] dd_ex (Some conn_ex)))"
    by code_simp
  from h create_never_removes_default_or_desired [OF h] show ?thesis by blast
qed

subsection \<open>C7: a failing schema read\<close>

text \<open>
  Claim C7 says that a schema read that fails raises the backend's exception, also when
  the connection existed before the call. With debug off the handler of line 136 reads
  \<^verbatim>\<open>errmsg\<close>, which only the core-creation branch of line 118 assigns: with a
  connection passed in, and with a connection that the first ping gives, \<open>create\<close> raises
  \<^verbatim>\<open>UnboundLocalError\<close>.
\<close>

theorem create_schema_read_failure_raises_unbound_local:
  "create cfg_ex remote_schema_down [] dd_ex (Some conn_ex)
     = (Inl (UnboundLocalError ''errmsg''), [SchemaFields conn_ex])
   \<and> create cfg_ex remote_schema_down [] dd_ex None
     = (Inl (UnboundLocalError ''errmsg''), [Ping conn_ex, SchemaFields conn_ex])"
  by code_simp

text \<open>
  What a failing schema read raises, in every case: the backend's exception when debug is
  on or when this call has created the core (with the message of the core creation),
  \<^verbatim>\<open>UnboundLocalError\<close> otherwise. \<^verbatim>\<open>errmsg\<close> is unbound exactly when the connection
  was passed in or given by the first ping.
\<close>

lemma create_schema_read_failure:
  assumes "create_connect cfg remote log (core_name_of cfg (resource_id d)) connection
             = (Inr (c, em), log1)"
    and "remote log1 (SchemaFields c) = Failure m"
  shows "create cfg remote log d connection =
     (Inl (if debug cfg then DatastoreSearchException (take MAX_ERR_LEN m)
           else case em of
                  None \<Rightarrow> UnboundLocalError ''errmsg''
                | Some errmsg \<Rightarrow> DatastoreSearchException errmsg),
      log1 @ [SchemaFields c])"
  using assms
  by (simp add: create_def read_schema_fields_def send_def split: option.splits)

subsection \<open>C8: \<open>upsert\<close> adds one record at a time and commits once\<close>

text \<open>
  Claim C8. With a usable connection \<open>c\<close> and a non-empty list of records, the requests
  of \<open>upsert\<close> after the connection are one \<^verbatim>\<open>add\<close> for each record, with
  \<^verbatim>\<open>commit=False\<close>, in the order of the list. Either every add is answered, and then
  they are followed by one commit with \<^verbatim>\<open>waitSearcher=False\<close>, the only commit; or
  there is a first add that fails, \<open>upsert\<close> raises the backend's exception, and it has
  sent the adds up to that one and no commit.
\<close>

theorem upsert_adds_each_record_then_commits_once:
  assumes "upsert_connect cfg remote datastore_search log d connection = (Inr c, log1)"
    and "records d = Some rs"
    and "rs \<noteq> []"
    and "adds = map (\<lambda>r. Add c r False) rs"
  shows "((\<forall>i<length rs. \<exists>b. remote (log1 @ take i adds) (adds ! i) = Body b)
          \<and> snd (upsert cfg remote datastore_search log d connection)
              = log1 @ adds @ [Commit c False]
          \<and> filter is_commit (adds @ [Commit c False]) = [Commit c False])
       \<or> (\<exists>k<length rs. \<exists>m.
            (\<forall>i<k. \<exists>b. remote (log1 @ take i adds) (adds ! i) = Body b)
          \<and> remote (log1 @ take k adds) (adds ! k) = Failure m
          \<and> upsert cfg remote datastore_search log d connection
              = (Inl (DatastoreSearchException
                       (error_text cfg
                          (''Failed to index records for '' @ core_name_of cfg (resource_id d))
                          (Some m))),
                 log1 @ take (Suc k) adds)
          \<and> filter is_commit (take (Suc k) adds) = [])"
proof -
  let ?cn = "core_name_of cfg (resource_id d)"
  let ?req = "\<lambda>r. Add c r False"
  have nc: "filter is_commit adds = []"
    using assms(4) by (simp add: filter_empty_conv)
  have nct: "\<And>n. filter is_commit (take n adds) = []"
    using nc by (metis filter_empty_conv in_set_takeD)
  obtain r l where ri: "run_items ?req (add_fails cfg ?cn) remote log1 rs = (r, l)"
    by (cases "run_items ?req (add_fails cfg ?cn) remote log1 rs")
  from run_items_cases [OF ri] show ?thesis
  proof (elim disjE conjE exE)
    assume a: "r = None" "l = log1 @ map ?req rs"
      "\<forall>i<length rs. item_raised ?req (add_fails cfg ?cn) remote log1 rs i = None"
    have ok: "\<forall>i<length rs. \<exists>b. remote (log1 @ take i adds) (adds ! i) = Body b"
      using a(3) assms(4) by (simp add: item_raised_map add_fails_None)
    have "add_records cfg remote c ?cn log1 rs = (Inr (), log1 @ adds)"
      using ri a(1,2) assms(4) by (simp add: add_records_run_items)
    then have "snd (upsert cfg remote datastore_search log d connection)
        = log1 @ adds @ [Commit c False]"
      using assms(1,2,3) by (simp add: upsert_def send_def split: response.splits)
    with ok nc show ?thesis by simp
  next
    fix k e
    assume b: "k < length rs" "r = Some e" "l = log1 @ map ?req (take (Suc k) rs)"
      "item_raised ?req (add_fails cfg ?cn) remote log1 rs k = Some e"
      "\<forall>i<k. item_raised ?req (add_fails cfg ?cn) remote log1 rs i = None"
    have ok: "\<forall>i<k. \<exists>b. remote (log1 @ take i adds) (adds ! i) = Body b"
      using b(1,5) assms(4) by (simp add: item_raised_map add_fails_None)
    from b(1,4) assms(4) obtain m where
      m: "remote (log1 @ take k adds) (adds ! k) = Failure m"
        "e = DatastoreSearchException
               (error_text cfg (''Failed to index records for '' @ ?cn) (Some m))"
      by (auto simp: item_raised_map add_fails_Some)
    have "add_records cfg remote c ?cn log1 rs = (Inl e, log1 @ take (Suc k) adds)"
      using ri b(2,3) assms(4) by (simp add: add_records_run_items take_map)
    then have "upsert cfg remote datastore_search log d connection
        = (Inl e, log1 @ take (Suc k) adds)"
      using assms(1,2,3) by (simp add: upsert_def)
    with ok m b(1) nct [of "Suc k"] show ?thesis by blast
  qed
qed

text \<open>
  The hypotheses hold with three records, on a server that fails the second request.
\<close>

theorem upsert_adds_each_record_then_commits_once_witness:
  "upsert_connect cfg_ex remote_second_fails (\<lambda>rid. Inr []) [] dd_ex (Some conn_ex)
     = (Inr conn_ex, [])
   \<and> records dd_ex = Some rs_ex
   \<and> rs_ex \<noteq> []
   \<and> (((\<forall>i<length rs_ex. \<exists>b.
           remote_second_fails ([] @ take i (map (\<lambda>r. Add conn_ex r False) rs_ex))
             (map (\<lambda>r. Add conn_ex r False) rs_ex ! i) = Body b)
          \<and> snd (upsert cfg_ex remote_second_fails (\<lambda>rid. Inr []) [] dd_ex (Some conn_ex))
              = [] @ map (\<lambda>r. Add conn_ex r False) rs_ex @ [Commit conn_ex False]
          \<and> filter is_commit (map (\<lambda>r. Add conn_ex r False) rs_ex @ [Commit conn_ex False])
              = [Commit conn_ex False])
       \<or> (\<exists>k<length rs_ex. \<exists>m.
            (\<forall>i<k. \<exists>b.
               remote_second_fails ([] @ take i (map (\<lambda>r. Add conn_ex r False) rs_ex))
                 (map (\<lambda>r. Add conn_ex r False) rs_ex ! i) = Body b)
          \<and> remote_second_fails ([] @ take k (map (\<lambda>r. Add conn_ex r False) rs_ex))
               (map (\<lambda>r. Add conn_ex r False) rs_ex ! k) = Failure m
          \<and> upsert cfg_ex remote_second_fails (\<lambda>rid. Inr []) [] dd_ex (Some conn_ex)
              = (Inl (DatastoreSearchException
                       (error_text cfg_ex
                          (''Failed to index records for ''
                             @ core_name_of cfg_ex (resource_id dd_ex))
                          (Some m))),
                 [] @ take (Suc k) (map (\<lambda>r. Add conn_ex r False) rs_ex))
          \<and> filter is_commit (take (Suc k) (map (\<lambda>r. Add conn_ex r False) rs_ex)) = []))"
proof -
  have h1: "upsert_connect cfg_ex remote_second_fails (\<lambda>rid. Inr []) [] dd_ex (Some conn_ex)
     = (Inr conn_ex, [])"
    by code_simp
  have h2: "records dd_ex = Some rs_ex" by code_simp
  have h3: "rs_ex \<noteq> []" by code_simp
  from h1 h2 h3 upsert_adds_each_record_then_commits_once [OF h1 h2 h3 refl]
  show ?thesis by blast
qed

subsection \<open>C9: \<open>delete\<close> with filters\<close>

text \<open>
  Claim C9. With a connection \<open>c\<close> and a non-empty \<^verbatim>\<open>filters\<close>, the requests of
  \<open>delete\<close> after the connection are one delete by the query \<^verbatim>\<open>key:value\<close> for each
  item, with \<^verbatim>\<open>commit=False\<close>, in the order of the items, and no commit. Either
  every deletion is answered and \<open>delete\<close> returns; or there is a first deletion that
  fails, \<open>delete\<close> raises the backend's exception for that item, and it has sent the
  deletions up to that one: none after it and nothing that would undo the ones before.
\<close>

theorem delete_issues_one_query_per_filter_without_commit:
  assumes "connection_or_make cfg remote log (core_name_of cfg (resource_id d)) connection
             = (Some c, log1)"
    and "filters d = Some fl"
    and "fl \<noteq> []"
    and "dels = map (\<lambda>kv. Delete c (fst kv @ '':'' @ snd kv) False) fl"
  shows "((\<forall>i<length fl. \<exists>b. remote (log1 @ take i dels) (dels ! i) = Body b)
          \<and> delete cfg remote log d connection = (Inr PyNone, log1 @ dels)
          \<and> filter is_commit dels = [])
       \<or> (\<exists>k<length fl. \<exists>m.
            (\<forall>i<k. \<exists>b. remote (log1 @ take i dels) (dels ! i) = Body b)
          \<and> remote (log1 @ take k dels) (dels ! k) = Failure m
          \<and> delete cfg remote log d connection
              = (Inl (DatastoreSearchException
                       (error_text cfg
                          (''Could not delete records '' @ fst (fl ! k) @ '','' @ snd (fl ! k)
                             @ '' in SOLR core '' @ core_name_of cfg (resource_id d))
                          (Some m))),
                 log1 @ take (Suc k) dels)
          \<and> filter is_commit (take (Suc k) dels) = [])"
proof -
  let ?cn = "core_name_of cfg (resource_id d)"
  have dm: "dels = map (filter_request c) fl"
    using assms(4) by (simp add: filter_request_def)
  have nc: "filter is_commit dels = []"
    using assms(4) by (simp add: filter_empty_conv)
  have nct: "\<And>n. filter is_commit (take n dels) = []"
    using nc by (metis filter_empty_conv in_set_takeD)
  have del: "delete cfg remote log d connection = delete_filters cfg remote c ?cn log1 fl"
    using assms(1,2,3) by (cases fl) (simp_all add: delete_def)
  obtain r l where ri: "run_items (filter_request c) (filter_fails cfg ?cn) remote log1 fl = (r, l)"
    by (cases "run_items (filter_request c) (filter_fails cfg ?cn) remote log1 fl")
  from run_items_cases [OF ri] show ?thesis
  proof (elim disjE conjE exE)
    assume a: "r = None" "l = log1 @ map (filter_request c) fl"
      "\<forall>i<length fl. item_raised (filter_request c) (filter_fails cfg ?cn) remote log1 fl i = None"
    have ok: "\<forall>i<length fl. \<exists>b. remote (log1 @ take i dels) (dels ! i) = Body b"
      using a(3) dm by (simp add: item_raised_map filter_fails_None)
    have "delete cfg remote log d connection = (Inr PyNone, log1 @ dels)"
      using ri a(1,2) dm del by (simp add: delete_filters_run_items)
    with ok nc show ?thesis by simp
  next
    fix k e
    assume b: "k < length fl" "r = Some e" "l = log1 @ map (filter_request c) (take (Suc k) fl)"
      "item_raised (filter_request c) (filter_fails cfg ?cn) remote log1 fl k = Some e"
      "\<forall>i<k. item_raised (filter_request c) (filter_fails cfg ?cn) remote log1 fl i = None"
    have ok: "\<forall>i<k. \<exists>b. remote (log1 @ take i dels) (dels ! i) = Body b"
      using b(1,5) dm by (simp add: item_raised_map filter_fails_None)
    from b(1,4) dm obtain m where
      m: "remote (log1 @ take k dels) (dels ! k) = Failure m"
        "e = DatastoreSearchException
               (error_text cfg (''Could not delete records '' @ fst (fl ! k) @ '','' @ snd (fl ! k)
                             @ '' in SOLR core '' @ ?cn) (Some m))"
      by (auto simp: item_raised_map filter_fails_Some)
    have "delete cfg remote log d connection = (Inl e, log1 @ take (Suc k) dels)"
      using ri b(2,3) dm del by (simp add: delete_filters_run_items take_map)
    with ok m b(1) nct [of "Suc k"] show ?thesis by blast
  qed
qed

text \<open>
  The hypotheses hold with three filters, on a server that fails the second request.
\<close>

theorem delete_issues_one_query_per_filter_without_commit_witness:
  "connection_or_make cfg_ex remote_second_fails [] (core_name_of cfg_ex (resource_id dd_ex))
      (Some conn_ex) = (Some conn_ex, [])
   \<and> filters dd_ex = Some fl_ex
   \<and> fl_ex \<noteq> []
   \<and> (((\<forall>i<length fl_ex. \<exists>b.
           remote_second_fails
             ([] @ take i (map (\<lambda>kv. Delete conn_ex (fst kv @ '':'' @ snd kv) False) fl_ex))
             (map (\<lambda>kv. Delete conn_ex (fst kv @ '':'' @ snd kv) False) fl_ex ! i) = Body b)
          \<and> delete cfg_ex remote_second_fails [] dd_ex (Some conn_ex)
              = (Inr PyNone,
                 [] @ map (\<lambda>kv. Delete conn_ex (fst kv @ '':'' @ snd kv) False) fl_ex)
          \<and> filter is_commit
               (map (\<lambda>kv. Delete conn_ex (fst kv @ '':'' @ snd kv) False) fl_ex) = [])
       \<or> (\<exists>k<length fl_ex. \<exists>m.
            (\<forall>i<k. \<exists>b.
               remote_second_fails
                 ([] @ take i (map (\<lambda>kv. Delete conn_ex (fst kv @ '':'' @ snd kv) False) fl_ex))
                 (map (\<lambda>kv. Delete conn_ex (fst kv @ '':'' @ snd kv) False) fl_ex ! i) = Body b)
          \<and> remote_second_fails
               ([] @ take k (map (\<lambda>kv. Delete conn_ex (fst kv @ '':'' @ snd kv) False) fl_ex))
               (map (\<lambda>kv. Delete conn_ex (fst kv @ '':'' @ snd kv) False) fl_ex ! k) = Failure m
          \<and> delete cfg_ex remote_second_fails [] dd_ex (Some conn_ex)
              = (Inl (DatastoreSearchException
                       (error_text cfg_ex
                          (''Could not delete records '' @ fst (fl_ex ! k) @ '',''
                             @ snd (fl_ex ! k) @ '' in SOLR core ''
                             @ core_name_of cfg_ex (resource_id dd_ex))
                          (Some m))),
                 [] @ take (Suc k)
                        (map (\<lambda>kv. Delete conn_ex (fst kv @ '':'' @ snd kv) False) fl_ex))
          \<and> filter is_commit
               (take (Suc k)
                  (map (\<lambda>kv. Delete conn_ex (fst kv @ '':'' @ snd kv) False) fl_ex)) = []))"
proof -
  have h1: "connection_or_make cfg_ex remote_second_fails []
      (core_name_of cfg_ex (resource_id dd_ex)) (Some conn_ex) = (Some conn_ex, [])"
    by code_simp
  have h2: "filters dd_ex = Some fl_ex" by code_simp
  have h3: "fl_ex \<noteq> []" by code_simp
  from h1 h2 h3 delete_issues_one_query_per_filter_without_commit [OF h1 h2 h3 refl]
  show ?thesis by blast
qed

subsection \<open>C10: the body of a replace-field request\<close>

text \<open>
  Claim C10. The body of every replace-field request that \<open>create\<close> sends is a field of
  the schema that this call has read, named as a desired field, with the value of its
  key \<^verbatim>\<open>type\<close> replaced by the mapped type of that desired field: the keys and their
  order are the live field's, and every key but \<^verbatim>\<open>type\<close> keeps its value.
\<close>

theorem replace_field_keeps_live_attributes:
  assumes "SchemaPost c ''replace-field'' body
             \<in> set (issued log (create cfg remote log d connection))"
  shows "\<exists>pre post resp solr_fields live f t.
        snd (create cfg remote log d connection) = log @ pre @ SchemaFields c # post
      \<and> remote (log @ pre) (SchemaFields c) = Body resp
      \<and> resp_fields resp = Some solr_fields
      \<and> live \<in> set solr_fields
      \<and> f \<in> set (get_fields d)
      \<and> map_of live ''name'' = Some (JStr (id_field f))
      \<and> field_type_map (type_field f) = Some t
      \<and> body = AList.update ''type'' (JStr t) live
      \<and> map fst body = map fst live
      \<and> map_of body ''type'' = Some (JStr t)
      \<and> (\<forall>k. k \<noteq> ''type'' \<longrightarrow> map_of body k = map_of live k)"
proof -
  from create_issued_post [OF assms] obtain em pre fs diff post where
    r: "read_schema_fields cfg remote (log @ pre) c em = (Inr fs, log @ pre @ [SchemaFields c])"
    and s: "schema_diff fs (get_fields d) = Inr diff"
    and m: "SchemaPost c ''replace-field'' body \<in> set (mutation_plan c diff)"
    and l: "snd (create cfg remote log d connection) = log @ pre @ SchemaFields c # post"
    by blast
  obtain new upd rem where d: "diff = (new, upd, rem)" by (cases diff)
  from m d have "body \<in> set upd" by (auto simp: mutation_plan_def)
  from schema_diff_updated [OF s [unfolded d] this] obtain f t live lt where
    f: "f \<in> set (get_fields d)" "live \<in> set fs"
      "map_of live ''name'' = Some (JStr (id_field f))"
      "field_type_map (type_field f) = Some t"
      "map_of live ''type'' = Some lt"
      "body = AList.update ''type'' (JStr t) live"
    by blast
  from read_schema_fields_ok [OF r] obtain resp where
    resp: "remote (log @ pre) (SchemaFields c) = Body resp" "resp_fields resp = Some fs"
    by blast
  have "''type'' \<in> set (map fst live)"
    using f(5) by (metis map_of_eq_None_iff option.distinct(1) set_map)
  then have keys: "map fst body = map fst live"
    using f(6) by (simp add: update_keys)
  have ty: "map_of body ''type'' = Some (JStr t)"
    using f(6) by (simp add: update_conv')
  have others: "\<forall>k. k \<noteq> ''type'' \<longrightarrow> map_of body k = map_of live k"
    using f(6) by (simp add: update_conv')
  from l resp f keys ty others show ?thesis by blast
qed

text \<open>
  The live field \<open>age\<close> has the type \<open>text\<close> and an attribute \<open>multiValued\<close>; the desired
  type \<open>integer\<close> maps to \<open>int\<close>.
\<close>

theorem replace_field_keeps_live_attributes_witness:
  "SchemaPost conn_ex ''replace-field'' (hd upd_ex)
     \<in> set (issued [] (create cfg_ex remote_ex [] dd_ex (Some conn_ex)))
   \<and> (\<exists>pre post resp solr_fields live f t.
        snd (create cfg_ex remote_ex [] dd_ex (Some conn_ex))
          = [] @ pre @ SchemaFields conn_ex # post
      \<and> remote_ex ([] @ pre) (SchemaFields conn_ex) = Body resp
      \<and> resp_fields resp = Some solr_fields
      \<and> live \<in> set solr_fields
      \<and> f \<in> set (get_fields dd_ex)
      \<and> map_of live ''name'' = Some (JStr (id_field f))
      \<and> field_type_map (type_field f) = Some t
      \<and> hd upd_ex = AList.update ''type'' (JStr t) live
      \<and> map fst (hd upd_ex) = map fst live
      \<and> map_of (hd upd_ex) ''type'' = Some (JStr t)
      \<and> (\<forall>k. k \<noteq> ''type'' \<longrightarrow> map_of (hd upd_ex) k = map_of live k))"
proof -
  have h: "SchemaPost conn_ex ''replace-field'' (hd upd_ex)
     \<in> set (issued [] (create cfg_ex remote_ex [] dd_ex (Some conn_ex)))"
    by code_simp
  from h replace_field_keeps_live_attributes [OF h] show ?thesis by blast
qed

end
